theory Spec2Isabelle
  imports Main
begin

section \<open>Errors\<close>

text \<open>
  Go's \<open>error\<close> interface values that occur in the two engines. A nil error is
  \<open>None\<close> of \<open>error option\<close>.
  \<^item> \<open>PlainError m\<close>: \<open>fmt.Errorf\<close> without \<open>%w\<close> (or \<open>errors.New\<close>), message \<open>m\<close>;
  \<^item> \<open>WrapError m e\<close>: \<open>fmt.Errorf\<close> with \<open>%w\<close>, formatted message \<open>m\<close>, unwrapping to \<open>e\<close>;
  \<^item> \<open>StatusError reason m\<close>: an API status error of the resource store;
  \<^item> \<open>ValidationError e\<close>: \<open>webhook.NewValidationError(e)\<close>.
\<close>

datatype error =
    PlainError string
  | WrapError string error
  | StatusError string string
  | ValidationError error

text \<open>
  Modelled from the spec: the \<open>ValidationError\<close> type of package \<open>pkg/webhook\<close> (its
  declaration, constructor and methods) is not among the sources; the spec describes it as
  an error kind "carrying a human-readable reason" whose message is surfaced verbatim, so
  its message is the message of the error it was built from. For the other errors
  \<open>Error e\<close> is \<open>e.Error()\<close>, the message they were made with.
\<close>

fun Error :: "error \<Rightarrow> string" where
  "Error (PlainError m) = m"
| "Error (WrapError m e) = m"
| "Error (StatusError reason m) = m"
| "Error (ValidationError e) = Error e"

text \<open>
  Modelled from the spec: whether a \<open>ValidationError\<close> (declared outside the sources)
  matches the target of \<open>errors.Is(err, ValidationError{})\<close> is the spec's "is-a
  ValidationError", a check of the error's kind tag. The standard library's \<open>errors.Is\<close>
  walks the chain of wrapped errors and asks each link whether it matches.
\<close>

fun Is_ValidationError :: "error \<Rightarrow> bool" where
  "Is_ValidationError (PlainError m) = False"
| "Is_ValidationError (WrapError m e) = Is_ValidationError e"
| "Is_ValidationError (StatusError reason m) = False"
| "Is_ValidationError (ValidationError e) = True"

text \<open>
  \<open>apierrors.IsNotFound(err)\<close> of the Kubernetes library: the error, or an error it
  wraps, is an API status whose reason is \<open>NotFound\<close>.
\<close>

definition StatusReasonNotFound :: string where
  "StatusReasonNotFound = ''NotFound''"

fun IsNotFound :: "error \<Rightarrow> bool" where
  "IsNotFound (PlainError m) = False"
| "IsNotFound (WrapError m e) = IsNotFound e"
| "IsNotFound (StatusError reason m) = (reason = StatusReasonNotFound)"
| "IsNotFound (ValidationError e) = False"

section \<open>Admission validation: \<open>pkg/webhook/validating_handler.go\<close>\<close>

subsection \<open>Responses and objects\<close>

text \<open>
  The three constructors of \<open>admission.Response\<close> that the dispatcher uses:
  \<open>admission.Allowed(reason)\<close>, \<open>admission.Denied(reason)\<close> and
  \<open>admission.Errored(code, err)\<close>, the last with its HTTP status code.
\<close>

datatype response =
    Allowed string
  | Denied string
  | Errored nat error

definition StatusBadRequest :: nat where
  "StatusBadRequest = 400"

definition StatusInternalServerError :: nat where
  "StatusInternalServerError = 500"

text \<open>
  A \<open>runtime.Object\<close> is a value with a dynamic type: either a \<open>*v1.StaticAccessKey\<close>
  (of which the validator reads \<open>Name\<close> and \<open>Spec.ServiceAccountID\<close>) or an object of
  another kind, identified by the name of its kind.
\<close>

record StaticAccessKeySpec =
  ServiceAccountID :: string

record StaticAccessKey =
  Name :: string
  Spec :: StaticAccessKeySpec

datatype object =
    StaticAccessKeyObject StaticAccessKey
  | OtherObject string

subsection \<open>The dispatcher\<close>

text \<open>The \<open>Validator\<close> interface: one method per admission operation.\<close>

record Validator =
  ValidateCreation :: "object \<Rightarrow> error option"
  ValidateUpdate :: "object \<Rightarrow> object \<Rightarrow> error option"
  ValidateDeletion :: "object \<Rightarrow> error option"

text \<open>
  \<open>admission.Request\<close>: the operation (a string type in \<open>k8s.io/api/admission/v1\<close>) and the
  raw payloads of the new and the previous object.
\<close>

type_synonym RawExtension = string

record Request =
  Operation :: string
  Object :: RawExtension
  OldObject :: RawExtension

definition v1_Create :: string where
  "v1_Create = ''CREATE''"

definition v1_Update :: string where
  "v1_Update = ''UPDATE''"

definition v1_Delete :: string where
  "v1_Delete = ''DELETE''"

definition v1_Connect :: string where
  "v1_Connect = ''CONNECT''"

text \<open>
  \<open>validatingHandler\<close>: the prototype object, the decoder and the validator (the logger is
  left out). The decoder is a collaborator: \<open>decoder r raw into\<close> is
  \<open>r.decoder.DecodeRaw(raw, into)\<close>, giving the error or the object decoded into
  \<open>into\<close>. The library's \<open>Decode(req, into)\<close> is \<open>DecodeRaw(req.Object, into)\<close>.
\<close>

record validatingHandler =
  object :: object
  decoder :: "RawExtension \<Rightarrow> object \<Rightarrow> error + object"
  validator :: Validator

definition Decode :: "validatingHandler \<Rightarrow> Request \<Rightarrow> object \<Rightarrow> error + object" where
  "Decode r req into = decoder r (Object req) into"

definition DecodeRaw :: "validatingHandler \<Rightarrow> RawExtension \<Rightarrow> object \<Rightarrow> error + object" where
  "DecodeRaw r raw into = decoder r raw into"

text \<open>
  The calls a dispatch makes to its collaborators, in the order made: which payload was
  handed to the decoder, and which method of the validator was invoked on which objects.
\<close>

datatype call =
    Decode_Object
  | Decode_OldObject
  | Call_ValidateCreation object
  | Call_ValidateUpdate object object
  | Call_ValidateDeletion object

fun is_Decode :: "call \<Rightarrow> bool" where
  "is_Decode Decode_Object = True"
| "is_Decode Decode_OldObject = True"
| "is_Decode c = False"

fun is_Validate :: "call \<Rightarrow> bool" where
  "is_Validate Decode_Object = False"
| "is_Validate Decode_OldObject = False"
| "is_Validate c = True"

definition handleValidationError :: "error option \<Rightarrow> response" where
  "handleValidationError err =
     (case err of
        Some e \<Rightarrow>
          if Is_ValidationError e then Denied (Error e)
          else Errored StatusInternalServerError e
      | None \<Rightarrow> Allowed [])"

text \<open>
  \<open>Handle\<close> returns the response together with the calls it made. A Go \<open>switch\<close> on a
  string tries its cases in order.
\<close>

definition Handle :: "validatingHandler \<Rightarrow> Request \<Rightarrow> response \<times> call list" where
  "Handle r req =
     (let obj = object r in
      if Operation req = v1_Create then
        (case Decode r req obj of
           Inl err \<Rightarrow> (Errored StatusBadRequest err, [Decode_Object])
         | Inr obj1 \<Rightarrow>
             (handleValidationError (ValidateCreation (validator r) obj1),
              [Decode_Object, Call_ValidateCreation obj1]))
      else if Operation req = v1_Update then
        (let old = object r in
         case DecodeRaw r (Object req) obj of
           Inl err \<Rightarrow> (Errored StatusBadRequest err, [Decode_Object])
         | Inr obj1 \<Rightarrow>
             (case DecodeRaw r (OldObject req) old of
                Inl err \<Rightarrow> (Errored StatusBadRequest err, [Decode_Object, Decode_OldObject])
              | Inr old1 \<Rightarrow>
                  (handleValidationError (ValidateUpdate (validator r) obj1 old1),
                   [Decode_Object, Decode_OldObject, Call_ValidateUpdate obj1 old1])))
      else if Operation req = v1_Delete then
        (case DecodeRaw r (OldObject req) obj of
           Inl err \<Rightarrow> (Errored StatusBadRequest err, [Decode_OldObject])
         | Inr obj1 \<Rightarrow>
             (handleValidationError (ValidateDeletion (validator r) obj1),
              [Decode_OldObject, Call_ValidateDeletion obj1]))
      else
        (Errored StatusBadRequest
           (PlainError (''invalid request operation: '' @ Operation req)), []))"

subsection \<open>The validator of static access keys: \<open>connector/sakey/webhook/validating.go\<close>\<close>

definition not_StaticAccessKey :: error where
  "not_StaticAccessKey = PlainError ''object is not of the StaticAccessKey type''"

fun SAKeyValidator_ValidateCreation :: "object \<Rightarrow> error option" where
  "SAKeyValidator_ValidateCreation (StaticAccessKeyObject castedObj) = None"
| "SAKeyValidator_ValidateCreation (OtherObject k) = Some not_StaticAccessKey"

fun SAKeyValidator_ValidateUpdate :: "object \<Rightarrow> object \<Rightarrow> error option" where
  "SAKeyValidator_ValidateUpdate (StaticAccessKeyObject castedCurrent) (StaticAccessKeyObject castedOld) =
     (if ServiceAccountID (Spec castedCurrent) \<noteq> ServiceAccountID (Spec castedOld) then
        Some (ValidationError (PlainError
          (''binded service account must be immutable, was changed from ''
             @ ServiceAccountID (Spec castedOld) @ '' to ''
             @ ServiceAccountID (Spec castedCurrent))))
      else None)"
| "SAKeyValidator_ValidateUpdate (StaticAccessKeyObject castedCurrent) (OtherObject k) =
     Some not_StaticAccessKey"
| "SAKeyValidator_ValidateUpdate (OtherObject k) old = Some not_StaticAccessKey"

fun SAKeyValidator_ValidateDeletion :: "object \<Rightarrow> error option" where
  "SAKeyValidator_ValidateDeletion (StaticAccessKeyObject castedObj) = None"
| "SAKeyValidator_ValidateDeletion (OtherObject k) = Some not_StaticAccessKey"

definition SAKeyValidator :: Validator where
  "SAKeyValidator =
     \<lparr>ValidateCreation = SAKeyValidator_ValidateCreation,
      ValidateUpdate = SAKeyValidator_ValidateUpdate,
      ValidateDeletion = SAKeyValidator_ValidateDeletion\<rparr>"

section \<open>Reconciliation: the YandexObjectStorage controller\<close>

subsection \<open>The resource and the decision to finalize\<close>

text \<open>
  Of the resource, the controller itself reads two fields: \<open>DeletionTimestamp\<close>, a
  pointer to a time (nil, or an instant given by its distance from the zero time), and
  \<open>Finalizers\<close>. \<open>IsZero\<close> is the library's test on such a pointer: nil or the zero time.
\<close>

record YandexObjectStorage =
  DeletionTimestamp :: "int option"
  Finalizers :: "string list"

definition IsZero :: "int option \<Rightarrow> bool" where
  "IsZero t = (case t of None \<Rightarrow> True | Some i \<Rightarrow> i = 0)"

text \<open>
  Modelled from the spec: \<open>util.ContainsString\<close> of package \<open>pkg/util\<close> is not among the
  sources; the spec reads the call as "the finalizer marker is present" among the
  resource's finalizers, so it is membership of the string in the slice.
\<close>

fun ContainsString :: "string list \<Rightarrow> string \<Rightarrow> bool" where
  "ContainsString [] s = False"
| "ContainsString (x # xs) s = (x = s \<or> ContainsString xs s)"

text \<open>
  The constant \<open>yosconfig.FinalizerName\<close> is declared outside the sources; it is the
  parameter \<open>FinalizerName\<close> of the functions that use it.
\<close>

definition mustBeFinalized :: "string \<Rightarrow> YandexObjectStorage \<Rightarrow> bool \<times> error option" where
  "mustBeFinalized FinalizerName registry =
     (\<not> IsZero (DeletionTimestamp registry)
        \<and> ContainsString (Finalizers registry) FinalizerName,
      None)"

subsection \<open>Phases, results and the controller\<close>

text \<open>
  A phase is an interface of three methods. Each receives a pointer to the resource and
  may reach the store and the cloud, so each is a function on the pair of the resource in
  memory and the world \<open>'w\<close> outside, returning what the Go method returns and the pair
  afterwards.
\<close>

record 'w YandexObjectStoragePhase =
  IsUpdated :: "YandexObjectStorage \<times> 'w \<Rightarrow> (bool \<times> error option) \<times> YandexObjectStorage \<times> 'w"
  Update :: "YandexObjectStorage \<times> 'w \<Rightarrow> error option \<times> YandexObjectStorage \<times> 'w"
  Cleanup :: "YandexObjectStorage \<times> 'w \<Rightarrow> error option \<times> YandexObjectStorage \<times> 'w"

text \<open>
  The reconciler: its client's \<open>Get\<close> (the error, or the resource read from the world under
  the requested name) and its phases.
\<close>

record 'w yandexObjectStorageReconciler =
  Get :: "'w \<Rightarrow> string \<Rightarrow> error + YandexObjectStorage"
  phases :: "'w YandexObjectStoragePhase list"

text \<open>
  Modelled from the spec: the helpers \<open>GetNormalResult\<close>, \<open>GetErroredResult\<close> and
  \<open>GetNeverResult\<close> of package \<open>pkg/config\<close> are not among the sources. They are the
  three invocation results of the spec: done, system fault to be retried (with its error),
  and no action because the resource is gone. Only the errored result carries an error.
\<close>

datatype result =
    GetNormalResult
  | GetErroredResult error
  | GetNeverResult

fun reported_error :: "result \<Rightarrow> error option" where
  "reported_error GetNormalResult = None"
| "reported_error (GetErroredResult err) = Some err"
| "reported_error GetNeverResult = None"

text \<open>
  The method calls an invocation makes on its phases, in the order made; a phase is
  named by its index in \<open>r.phases\<close>.
\<close>

datatype phase_call =
    Call_IsUpdated nat
  | Call_Update nat
  | Call_Cleanup nat

fun then_calls :: "phase_call list \<Rightarrow> 'a \<times> 's \<times> phase_call list \<Rightarrow> 'a \<times> 's \<times> phase_call list" where
  "then_calls cs (a, s, cs') = (a, s, cs @ cs')"

text \<open>
  The loop \<open>for _, updater := range r.phases\<close> of \<open>Reconcile\<close>, from the phase of index
  \<open>i\<close> on: it returns where the Go loop returns, and otherwise goes on to the next phase.
\<close>

fun phases_loop ::
  "'w YandexObjectStoragePhase list \<Rightarrow> nat \<Rightarrow> YandexObjectStorage \<times> 'w
     \<Rightarrow> result \<times> (YandexObjectStorage \<times> 'w) \<times> phase_call list" where
  "phases_loop [] i s = (GetNormalResult, s, [])"
| "phases_loop (updater # rest) i s =
     (case IsUpdated updater s of
        ((isInitialized, Some err), s1) \<Rightarrow> (GetErroredResult err, s1, [Call_IsUpdated i])
      | ((isInitialized, None), s1) \<Rightarrow>
          if \<not> isInitialized then
            (case Update updater s1 of
               (Some err, s2) \<Rightarrow> (GetErroredResult err, s2, [Call_IsUpdated i, Call_Update i])
             | (None, s2) \<Rightarrow>
                 then_calls [Call_IsUpdated i, Call_Update i] (phases_loop rest (Suc i) s2))
          else then_calls [Call_IsUpdated i] (phases_loop rest (Suc i) s1))"

text \<open>
  The loop \<open>for i := len(r.phases); i != 0; i--\<close> of \<open>finalize\<close>, with \<open>i\<close> still to go;
  \<open>i - 1\<close> is below the length whenever \<open>i\<close> is at most the length.
\<close>

fun finalize_loop ::
  "'w YandexObjectStoragePhase list \<Rightarrow> nat \<Rightarrow> YandexObjectStorage \<times> 'w
     \<Rightarrow> error option \<times> (YandexObjectStorage \<times> 'w) \<times> phase_call list" where
  "finalize_loop ps 0 s = (None, s, [])"
| "finalize_loop ps (Suc j) s =
     (case Cleanup (ps ! j) s of
        (Some err, s1) \<Rightarrow>
          (Some (PlainError (''error during finalization: '' @ Error err)), s1, [Call_Cleanup j])
      | (None, s1) \<Rightarrow> then_calls [Call_Cleanup j] (finalize_loop ps j s1))"

definition finalize ::
  "'w yandexObjectStorageReconciler \<Rightarrow> YandexObjectStorage \<times> 'w
     \<Rightarrow> error option \<times> (YandexObjectStorage \<times> 'w) \<times> phase_call list" where
  "finalize r s = finalize_loop (phases r) (length (phases r)) s"

text \<open>
  \<open>Reconcile\<close> returns its result, the world afterwards and the calls made on the phases.
  The resource it loaded is a local variable and ends with the invocation.
\<close>

definition Reconcile ::
  "string \<Rightarrow> 'w yandexObjectStorageReconciler \<Rightarrow> 'w \<Rightarrow> string
     \<Rightarrow> result \<times> 'w \<times> phase_call list" where
  "Reconcile FinalizerName r w req =
     (case Get r w req of
        Inl err \<Rightarrow>
          if IsNotFound err then (GetNeverResult, w, [])
          else (GetErroredResult err, w, [])
      | Inr resource \<Rightarrow>
          (case mustBeFinalized FinalizerName resource of
             (mustBe, Some err) \<Rightarrow> (GetErroredResult err, w, [])
           | (mustBe, None) \<Rightarrow>
               if mustBe then
                 (case finalize r (resource, w) of
                    (Some err, s1, cs) \<Rightarrow> (GetErroredResult err, snd s1, cs)
                  | (None, s1, cs) \<Rightarrow> (GetNormalResult, snd s1, cs))
               else
                 (case phases_loop (phases r) 0 (resource, w) of
                    (res, s1, cs) \<Rightarrow> (res, snd s1, cs))))"

section \<open>Properties of the admission dispatcher: vocabulary\<close>

text \<open>
  The payloads the spec assigns to each operation kind, as the decoder calls they need:
  create the new object only, update the new and then the old object, delete the old
  object only.
\<close>

definition payloads_for :: "string \<Rightarrow> call list" where
  "payloads_for op =
     (if op = v1_Create then [Decode_Object]
      else if op = v1_Update then [Decode_Object, Decode_OldObject]
      else if op = v1_Delete then [Decode_OldObject]
      else [])"

text \<open>Some payload that the operation kind needs fails to decode.\<close>

definition decode_fails :: "validatingHandler \<Rightarrow> Request \<Rightarrow> bool" where
  "decode_fails r req =
     (if Operation req = v1_Create then isl (decoder r (Object req) (object r))
      else if Operation req = v1_Update then
        isl (decoder r (Object req) (object r)) \<or> isl (decoder r (OldObject req) (object r))
      else if Operation req = v1_Delete then isl (decoder r (OldObject req) (object r))
      else False)"

fun is_BadRequest :: "response \<Rightarrow> bool" where
  "is_BadRequest (Errored code err) = (code = StatusBadRequest)"
| "is_BadRequest (Allowed reason) = False"
| "is_BadRequest (Denied reason) = False"

section \<open>Properties of the reconciliation controller: vocabulary\<close>

text \<open>The phases on which a sequence of calls invokes each of the three methods, in order.\<close>

fun IsUpdated_calls :: "phase_call list \<Rightarrow> nat list" where
  "IsUpdated_calls [] = []"
| "IsUpdated_calls (Call_IsUpdated i # cs) = i # IsUpdated_calls cs"
| "IsUpdated_calls (c # cs) = IsUpdated_calls cs"

fun Update_calls :: "phase_call list \<Rightarrow> nat list" where
  "Update_calls [] = []"
| "Update_calls (Call_Update i # cs) = i # Update_calls cs"
| "Update_calls (c # cs) = Update_calls cs"

fun Cleanup_calls :: "phase_call list \<Rightarrow> nat list" where
  "Cleanup_calls [] = []"
| "Cleanup_calls (Call_Cleanup i # cs) = i # Cleanup_calls cs"
| "Cleanup_calls (c # cs) = Cleanup_calls cs"

text \<open>
  Finalization in the spec's words: run \<open>cleanup\<close> on each phase of a sequence in the
  order given, stopping at the first error and reporting it. Each phase comes with its
  index in the configured sequence.
\<close>

fun cleanup_each ::
  "(nat \<times> 'w YandexObjectStoragePhase) list \<Rightarrow> YandexObjectStorage \<times> 'w
     \<Rightarrow> error option \<times> (YandexObjectStorage \<times> 'w) \<times> phase_call list" where
  "cleanup_each [] s = (None, s, [])"
| "cleanup_each ((i, p) # rest) s =
     (case Cleanup p s of
        (Some err, s1) \<Rightarrow>
          (Some (PlainError (''error during finalization: '' @ Error err)), s1, [Call_Cleanup i])
      | (None, s1) \<Rightarrow> then_calls [Call_Cleanup i] (cleanup_each rest s1))"

section \<open>Example collaborators\<close>

text \<open>
  A decoder for examples: an empty payload does not decode; any other payload is taken
  as the service account of a static access key when there is one to decode into.
\<close>

definition example_decoder :: "RawExtension \<Rightarrow> object \<Rightarrow> error + object" where
  "example_decoder raw into =
     (if raw = [] then Inl (PlainError ''there is no content to decode'')
      else case into of
        StaticAccessKeyObject k \<Rightarrow>
          Inr (StaticAccessKeyObject (k\<lparr>Spec := \<lparr>ServiceAccountID = raw\<rparr>\<rparr>))
      | OtherObject kind \<Rightarrow> Inr (OtherObject kind))"

definition example_key :: "string \<Rightarrow> StaticAccessKey" where
  "example_key account = \<lparr>Name = ''key'', Spec = \<lparr>ServiceAccountID = account\<rparr>\<rparr>"

definition example_handler :: validatingHandler where
  "example_handler =
     \<lparr>object = StaticAccessKeyObject (example_key []),
      decoder = example_decoder,
      validator = SAKeyValidator\<rparr>"

definition example_handler_other :: validatingHandler where
  "example_handler_other =
     \<lparr>object = OtherObject ''Secret'',
      decoder = example_decoder,
      validator = SAKeyValidator\<rparr>"

text \<open>
  A world for examples: the resource as stored, whether its bucket exists in the cloud,
  and whether the cloud adapter is out of reach. The store knows one resource, under the
  name \<open>storage\<close>.
\<close>

record example_world =
  stored :: YandexObjectStorage
  bucket_exists :: bool
  adapter_down :: bool

definition example_Get :: "example_world \<Rightarrow> string \<Rightarrow> error + YandexObjectStorage" where
  "example_Get w req =
     (if req = ''storage'' then Inr (stored w)
      else Inl (StatusError StatusReasonNotFound (req @ '' not found'')))"

text \<open>
  Modelled from the spec: the two phases that the constructor configures,
  \<open>FinalizerRegistrar\<close> and \<open>ResourceAllocator\<close> of package \<open>controller/phase\<close>, are not
  among the sources. The first is converged when the finalizer marker is present, applies
  by adding and persisting it, and cleans up by removing it. The second is converged when
  the external resource exists, applies by creating it and cleans up by deleting it; here
  each of its calls fails while the adapter is out of reach.
\<close>

definition FinalizerRegistrar :: "string \<Rightarrow> example_world YandexObjectStoragePhase" where
  "FinalizerRegistrar FinalizerName =
     \<lparr>IsUpdated = (\<lambda>(res, w). ((ContainsString (Finalizers res) FinalizerName, None), res, w)),
      Update = (\<lambda>(res, w).
        (None, res\<lparr>Finalizers := Finalizers res @ [FinalizerName]\<rparr>,
         w\<lparr>stored := res\<lparr>Finalizers := Finalizers res @ [FinalizerName]\<rparr>\<rparr>)),
      Cleanup = (\<lambda>(res, w).
        (None, res\<lparr>Finalizers := removeAll FinalizerName (Finalizers res)\<rparr>,
         w\<lparr>stored := res\<lparr>Finalizers := removeAll FinalizerName (Finalizers res)\<rparr>\<rparr>))\<rparr>"

definition adapter_unavailable :: error where
  "adapter_unavailable = PlainError ''adapter unavailable''"

definition ResourceAllocator :: "example_world YandexObjectStoragePhase" where
  "ResourceAllocator =
     \<lparr>IsUpdated = (\<lambda>(res, w).
        if adapter_down w then ((False, Some adapter_unavailable), res, w)
        else ((bucket_exists w, None), res, w)),
      Update = (\<lambda>(res, w).
        if adapter_down w then (Some adapter_unavailable, res, w)
        else (None, res, w\<lparr>bucket_exists := True\<rparr>)),
      Cleanup = (\<lambda>(res, w).
        if adapter_down w then (Some adapter_unavailable, res, w)
        else (None, res, w\<lparr>bucket_exists := False\<rparr>))\<rparr>"

definition example_marker :: string where
  "example_marker = ''yos.finalizer''"

definition example_reconciler :: "example_world yandexObjectStorageReconciler" where
  "example_reconciler =
     \<lparr>Get = example_Get,
      phases = [FinalizerRegistrar example_marker, ResourceAllocator]\<rparr>"

text \<open>A store out of reach: every \<open>Get\<close> fails, and not with not-found.\<close>

definition unreachable_Get :: "example_world \<Rightarrow> string \<Rightarrow> error + YandexObjectStorage" where
  "unreachable_Get w req = Inl (StatusError ''ServiceUnavailable'' ''store unreachable'')"

definition example_reconciler_unreachable :: "example_world yandexObjectStorageReconciler" where
  "example_reconciler_unreachable =
     \<lparr>Get = unreachable_Get,
      phases = [FinalizerRegistrar example_marker, ResourceAllocator]\<rparr>"

text \<open>A controller configured with the registrar alone; none of its calls can fail.\<close>

definition example_reconciler_registrar :: "example_world yandexObjectStorageReconciler" where
  "example_reconciler_registrar =
     \<lparr>Get = example_Get, phases = [FinalizerRegistrar example_marker]\<rparr>"

definition example_resource :: "int option \<Rightarrow> string list \<Rightarrow> YandexObjectStorage" where
  "example_resource deleted fins = \<lparr>DeletionTimestamp = deleted, Finalizers = fins\<rparr>"

definition example_state :: "int option \<Rightarrow> string list \<Rightarrow> bool \<Rightarrow> bool \<Rightarrow> example_world" where
  "example_state deleted fins bucket down =
     \<lparr>stored = example_resource deleted fins, bucket_exists = bucket, adapter_down = down\<rparr>"

section \<open>Lemmas on the dispatcher\<close>

lemma v1_operations_distinct:
  "v1_Create \<noteq> v1_Update" "v1_Create \<noteq> v1_Delete" "v1_Update \<noteq> v1_Delete"
  "v1_Update \<noteq> v1_Create" "v1_Delete \<noteq> v1_Create" "v1_Delete \<noteq> v1_Update"
  by (simp_all add: v1_Create_def v1_Update_def v1_Delete_def)

lemma Handle_Create:
  "Operation req = v1_Create \<Longrightarrow>
   Handle r req =
     (case decoder r (Object req) (object r) of
        Inl err \<Rightarrow> (Errored StatusBadRequest err, [Decode_Object])
      | Inr obj1 \<Rightarrow>
          (handleValidationError (ValidateCreation (validator r) obj1),
           [Decode_Object, Call_ValidateCreation obj1]))"
  unfolding Handle_def Decode_def Let_def by simp

lemma Handle_Update:
  "Operation req = v1_Update \<Longrightarrow>
   Handle r req =
     (case decoder r (Object req) (object r) of
        Inl err \<Rightarrow> (Errored StatusBadRequest err, [Decode_Object])
      | Inr obj1 \<Rightarrow>
          (case decoder r (OldObject req) (object r) of
             Inl err \<Rightarrow> (Errored StatusBadRequest err, [Decode_Object, Decode_OldObject])
           | Inr old1 \<Rightarrow>
               (handleValidationError (ValidateUpdate (validator r) obj1 old1),
                [Decode_Object, Decode_OldObject, Call_ValidateUpdate obj1 old1])))"
  unfolding Handle_def DecodeRaw_def Let_def by (simp add: v1_operations_distinct)

lemma Handle_Delete:
  "Operation req = v1_Delete \<Longrightarrow>
   Handle r req =
     (case decoder r (OldObject req) (object r) of
        Inl err \<Rightarrow> (Errored StatusBadRequest err, [Decode_OldObject])
      | Inr obj1 \<Rightarrow>
          (handleValidationError (ValidateDeletion (validator r) obj1),
           [Decode_OldObject, Call_ValidateDeletion obj1]))"
  unfolding Handle_def DecodeRaw_def Let_def by (simp add: v1_operations_distinct)

lemma Handle_other:
  "Operation req \<noteq> v1_Create \<Longrightarrow> Operation req \<noteq> v1_Update \<Longrightarrow>
   Operation req \<noteq> v1_Delete \<Longrightarrow>
   Handle r req =
     (Errored StatusBadRequest
        (PlainError (''invalid request operation: '' @ Operation req)), [])"
  by (simp add: Handle_def)

lemma Handle_cases:
  obtains "Operation req = v1_Create" | "Operation req = v1_Update"
  | "Operation req = v1_Delete"
  | "Operation req \<noteq> v1_Create" "Operation req \<noteq> v1_Update" "Operation req \<noteq> v1_Delete"
  by blast

lemma Handle_ValidateCreation_response:
  "Call_ValidateCreation obj \<in> set (snd (Handle r req)) \<Longrightarrow>
   fst (Handle r req) = handleValidationError (ValidateCreation (validator r) obj)"
  by (cases rule: Handle_cases [of req])
     (auto simp: Handle_Create Handle_Update Handle_Delete Handle_other split: sum.splits)

lemma Handle_ValidateUpdate_response:
  "Call_ValidateUpdate obj old \<in> set (snd (Handle r req)) \<Longrightarrow>
   fst (Handle r req) = handleValidationError (ValidateUpdate (validator r) obj old)"
  by (cases rule: Handle_cases [of req])
     (auto simp: Handle_Create Handle_Update Handle_Delete Handle_other split: sum.splits)

lemma Handle_ValidateDeletion_response:
  "Call_ValidateDeletion obj \<in> set (snd (Handle r req)) \<Longrightarrow>
   fst (Handle r req) = handleValidationError (ValidateDeletion (validator r) obj)"
  by (cases rule: Handle_cases [of req])
     (auto simp: Handle_Create Handle_Update Handle_Delete Handle_other split: sum.splits)

subsection \<open>The example handler at work\<close>

lemmas example_webhook_defs =
  example_handler_def example_handler_other_def example_decoder_def example_key_def
  SAKeyValidator_def


lemma ex_update:
  "Handle example_handler \<lparr>Operation = v1_Update, Object = ''sa2'', OldObject = ''sa1''\<rparr>
     = (Denied ''binded service account must be immutable, was changed from sa1 to sa2'',
        [Decode_Object, Decode_OldObject,
         Call_ValidateUpdate (StaticAccessKeyObject (example_key ''sa2'')) (StaticAccessKeyObject (example_key ''sa1''))])"
  by (simp add: Handle_Update example_webhook_defs handleValidationError_def)


lemma ex_delete_empty:
  "Handle example_handler \<lparr>Operation = v1_Delete, Object = ''sa'', OldObject = []\<rparr>
     = (Errored 400 (PlainError ''there is no content to decode''), [Decode_OldObject])"
  by (simp add: Handle_Delete example_webhook_defs StatusBadRequest_def)

lemma ex_update_empty:
  "Handle example_handler \<lparr>Operation = v1_Update, Object = ''sa'', OldObject = []\<rparr>
     = (Errored 400 (PlainError ''there is no content to decode''),
        [Decode_Object, Decode_OldObject])"
  by (simp add: Handle_Update example_webhook_defs StatusBadRequest_def)

lemma ex_decode_fails:
  "decode_fails example_handler \<lparr>Operation = v1_Delete, Object = ''sa'', OldObject = []\<rparr>"
  "decode_fails example_handler \<lparr>Operation = v1_Update, Object = ''sa'', OldObject = []\<rparr>"
  "\<not> decode_fails example_handler \<lparr>Operation = v1_Update, Object = ''sa2'', OldObject = ''sa1''\<rparr>"
  by (simp_all add: decode_fails_def example_webhook_defs v1_operations_distinct)

lemma v1_Connect_distinct:
  "v1_Connect \<noteq> v1_Create" "v1_Connect \<noteq> v1_Update" "v1_Connect \<noteq> v1_Delete"
  by (simp_all add: v1_Connect_def v1_Create_def v1_Update_def v1_Delete_def)

section \<open>Properties of the admission dispatcher\<close>



text \<open>
  C5. The dispatcher hands the decoder the payloads of the operation kind and no other:
  for a create the new object only, for a delete the old object only, for an update the
  new object and then, once that has decoded, the old one. A method of the validator is
  invoked only after every payload of the kind has been decoded without failure. When a
  payload of the kind fails to decode, the response is an error with the bad-request
  status carrying the decoder's error, and no method of the validator is invoked.
\<close>

theorem Handle_decodes_by_operation:
  "(Operation req = v1_Create \<longrightarrow> filter is_Decode (snd (Handle r req)) = [Decode_Object])
   \<and> (Operation req = v1_Update \<longrightarrow>
        filter is_Decode (snd (Handle r req)) =
          (if isl (decoder r (Object req) (object r)) then [Decode_Object]
           else [Decode_Object, Decode_OldObject]))
   \<and> (Operation req = v1_Delete \<longrightarrow> filter is_Decode (snd (Handle r req)) = [Decode_OldObject])
   \<and> ((\<exists>c \<in> set (snd (Handle r req)). is_Validate c) \<longrightarrow>
        filter is_Decode (snd (Handle r req)) = payloads_for (Operation req)
        \<and> \<not> decode_fails r req)
   \<and> (decode_fails r req \<longrightarrow>
        (\<exists>err. fst (Handle r req) = Errored StatusBadRequest err
           \<and> (decoder r (Object req) (object r) = Inl err
                \<or> decoder r (OldObject req) (object r) = Inl err))
        \<and> (\<forall>c \<in> set (snd (Handle r req)). \<not> is_Validate c))
   \<and> StatusBadRequest = 400"
proof -
  have create:
    "Operation req = v1_Create \<longrightarrow> filter is_Decode (snd (Handle r req)) = [Decode_Object]"
    by (auto simp: Handle_Create split: sum.splits)
  have update:
    "Operation req = v1_Update \<longrightarrow>
        filter is_Decode (snd (Handle r req)) =
          (if isl (decoder r (Object req) (object r)) then [Decode_Object]
           else [Decode_Object, Decode_OldObject])"
    by (auto simp: Handle_Update split: sum.splits)
  have delete:
    "Operation req = v1_Delete \<longrightarrow> filter is_Decode (snd (Handle r req)) = [Decode_OldObject]"
    by (auto simp: Handle_Delete split: sum.splits)
  have validated:
    "(\<exists>c \<in> set (snd (Handle r req)). is_Validate c) \<longrightarrow>
        filter is_Decode (snd (Handle r req)) = payloads_for (Operation req)
        \<and> \<not> decode_fails r req"
  proof (cases rule: Handle_cases [of req])
    case 1
    then show ?thesis
      by (simp add: Handle_Create payloads_for_def decode_fails_def split: sum.splits)
  next
    case 2
    then show ?thesis
      by (simp add: Handle_Update payloads_for_def decode_fails_def v1_operations_distinct
            split: sum.splits)
  next
    case 3
    then show ?thesis
      by (simp add: Handle_Delete payloads_for_def decode_fails_def v1_operations_distinct
            split: sum.splits)
  next
    case 4
    then show ?thesis by (simp add: Handle_other)
  qed
  have failed:
    "decode_fails r req \<longrightarrow>
        (\<exists>err. fst (Handle r req) = Errored StatusBadRequest err
           \<and> (decoder r (Object req) (object r) = Inl err
                \<or> decoder r (OldObject req) (object r) = Inl err))
        \<and> (\<forall>c \<in> set (snd (Handle r req)). \<not> is_Validate c)"
  proof (cases rule: Handle_cases [of req])
    case 1
    then show ?thesis
      by (auto simp: Handle_Create decode_fails_def split: sum.splits)
  next
    case 2
    then show ?thesis
      by (auto simp: Handle_Update decode_fails_def v1_operations_distinct split: sum.splits)
  next
    case 3
    then show ?thesis
      by (auto simp: Handle_Delete decode_fails_def v1_operations_distinct split: sum.splits)
  next
    case 4
    then show ?thesis by (simp add: decode_fails_def)
  qed
  from create update delete validated failed show ?thesis
    by (simp add: StatusBadRequest_def)
qed

theorem Handle_decodes_by_operation_witness:
  "decode_fails example_handler \<lparr>Operation = v1_Delete, Object = ''sa'', OldObject = []\<rparr>
   \<and> Handle example_handler \<lparr>Operation = v1_Delete, Object = ''sa'', OldObject = []\<rparr>
       = (Errored 400 (PlainError ''there is no content to decode''), [Decode_OldObject])
   \<and> filter is_Validate (snd (Handle example_handler
          \<lparr>Operation = v1_Delete, Object = ''sa'', OldObject = []\<rparr>)) = []
   \<and> filter is_Decode (snd (Handle example_handler
          \<lparr>Operation = v1_Create, Object = ''sa'', OldObject = []\<rparr>)) = [Decode_Object]
   \<and> decode_fails example_handler \<lparr>Operation = v1_Update, Object = ''sa'', OldObject = []\<rparr>
   \<and> Handle example_handler \<lparr>Operation = v1_Update, Object = ''sa'', OldObject = []\<rparr>
       = (Errored 400 (PlainError ''there is no content to decode''),
          [Decode_Object, Decode_OldObject])
   \<and> \<not> decode_fails example_handler
          \<lparr>Operation = v1_Update, Object = ''sa2'', OldObject = ''sa1''\<rparr>
   \<and> filter is_Decode (snd (Handle example_handler
          \<lparr>Operation = v1_Update, Object = ''sa2'', OldObject = ''sa1''\<rparr>))
       = [Decode_Object, Decode_OldObject]"
proof -
  have no_validator:
    "\<forall>c \<in> set (snd (Handle example_handler
        \<lparr>Operation = v1_Delete, Object = ''sa'', OldObject = []\<rparr>)). \<not> is_Validate c"
    using ex_decode_fails(1) Handle_decodes_by_operation
      [of "\<lparr>Operation = v1_Delete, Object = ''sa'', OldObject = []\<rparr>" example_handler]
    by blast
  have create:
    "filter is_Decode (snd (Handle example_handler
        \<lparr>Operation = v1_Create, Object = ''sa'', OldObject = []\<rparr>)) = [Decode_Object]"
    using Handle_decodes_by_operation
      [of "\<lparr>Operation = v1_Create, Object = ''sa'', OldObject = []\<rparr>" example_handler]
    by simp
  have no_validator':
    "filter is_Validate (snd (Handle example_handler
        \<lparr>Operation = v1_Delete, Object = ''sa'', OldObject = []\<rparr>)) = []"
    using no_validator by (simp only: filter_empty_conv)
  show ?thesis
    using no_validator' create
    by (simp add: ex_decode_fails ex_delete_empty ex_update_empty ex_update)
qed

text \<open>
  C7. A request whose operation kind is none of create, update and delete gets an
  error response with the bad-request status, and the dispatch makes no call at all:
  nothing is decoded and no method of the validator is invoked.
\<close>

theorem Handle_invalid_operation:
  "Operation req \<noteq> v1_Create \<Longrightarrow> Operation req \<noteq> v1_Update \<Longrightarrow>
   Operation req \<noteq> v1_Delete \<Longrightarrow>
   Handle r req =
     (Errored StatusBadRequest (PlainError (''invalid request operation: '' @ Operation req)), [])
   \<and> is_BadRequest (fst (Handle r req))
   \<and> (\<forall>c \<in> set (snd (Handle r req)). \<not> is_Validate c)"
  by (simp add: Handle_other)

theorem Handle_invalid_operation_witness:
  "v1_Connect \<noteq> v1_Create \<and> v1_Connect \<noteq> v1_Update \<and> v1_Connect \<noteq> v1_Delete
   \<and> Handle example_handler \<lparr>Operation = v1_Connect, Object = ''sa'', OldObject = ''sa''\<rparr>
       = (Errored 400 (PlainError ''invalid request operation: CONNECT''), [])"
  using Handle_invalid_operation
      [of "\<lparr>Operation = v1_Connect, Object = ''sa'', OldObject = ''sa''\<rparr>" example_handler]
  by (simp add: v1_Connect_distinct StatusBadRequest_def) (simp add: v1_Connect_def)

text \<open>
  C8. For two static access keys, \<open>ValidateUpdate\<close> returns a ValidationError exactly
  when the service account of the new object differs from that of the old one; the
  message of that error is the fixed sentence followed by the old and then the new value;
  when they are equal it returns nil. A dispatched update that decodes to the two objects
  is therefore denied with exactly that message when the field changes, and allowed when
  it does not.
\<close>

theorem ValidateUpdate_immutable_ServiceAccountID:
  "((\<exists>e. SAKeyValidator_ValidateUpdate (StaticAccessKeyObject current) (StaticAccessKeyObject old)
            = Some (ValidationError e))
      = (ServiceAccountID (Spec current) \<noteq> ServiceAccountID (Spec old)))
   \<and> ((\<exists>e. SAKeyValidator_ValidateUpdate (StaticAccessKeyObject current) (StaticAccessKeyObject old)
            = Some e \<and> Is_ValidationError e)
      = (ServiceAccountID (Spec current) \<noteq> ServiceAccountID (Spec old)))
   \<and> (ServiceAccountID (Spec current) \<noteq> ServiceAccountID (Spec old) \<longrightarrow>
        (\<exists>e. SAKeyValidator_ValidateUpdate (StaticAccessKeyObject current) (StaticAccessKeyObject old)
              = Some e
           \<and> Error e = ''binded service account must be immutable, was changed from ''
                @ ServiceAccountID (Spec old) @ '' to '' @ ServiceAccountID (Spec current)))
   \<and> (ServiceAccountID (Spec current) = ServiceAccountID (Spec old) \<longrightarrow>
        SAKeyValidator_ValidateUpdate (StaticAccessKeyObject current) (StaticAccessKeyObject old)
          = None)
   \<and> (Operation req = v1_Update \<and> validator r = SAKeyValidator
        \<and> decoder r (Object req) (object r) = Inr (StaticAccessKeyObject current)
        \<and> decoder r (OldObject req) (object r) = Inr (StaticAccessKeyObject old) \<longrightarrow>
        fst (Handle r req) =
          (if ServiceAccountID (Spec current) \<noteq> ServiceAccountID (Spec old)
           then Denied (''binded service account must be immutable, was changed from ''
                  @ ServiceAccountID (Spec old) @ '' to '' @ ServiceAccountID (Spec current))
           else Allowed []))"
  by (simp add: Handle_Update SAKeyValidator_def handleValidationError_def)

theorem ValidateUpdate_immutable_ServiceAccountID_witness:
  "ServiceAccountID (Spec (example_key ''sa2'')) \<noteq> ServiceAccountID (Spec (example_key ''sa1''))
   \<and> SAKeyValidator_ValidateUpdate (StaticAccessKeyObject (example_key ''sa2''))
         (StaticAccessKeyObject (example_key ''sa1''))
       = Some (ValidationError (PlainError
           ''binded service account must be immutable, was changed from sa1 to sa2''))
   \<and> SAKeyValidator_ValidateUpdate (StaticAccessKeyObject (example_key ''sa1''))
         (StaticAccessKeyObject (example_key ''sa1'')) = None
   \<and> fst (Handle example_handler \<lparr>Operation = v1_Update, Object = ''sa2'', OldObject = ''sa1''\<rparr>)
       = Denied ''binded service account must be immutable, was changed from sa1 to sa2''
   \<and> fst (Handle example_handler \<lparr>Operation = v1_Update, Object = ''sa1'', OldObject = ''sa1''\<rparr>)
       = Allowed []"
proof -
  have differs:
    "ServiceAccountID (Spec (example_key ''sa2'')) \<noteq> ServiceAccountID (Spec (example_key ''sa1''))"
    by (simp add: example_key_def)
  have decoded:
    "decoder example_handler ''sa2'' (object example_handler)
       = Inr (StaticAccessKeyObject (example_key ''sa2''))"
    "decoder example_handler ''sa1'' (object example_handler)
       = Inr (StaticAccessKeyObject (example_key ''sa1''))"
    "validator example_handler = SAKeyValidator"
    by (simp_all add: example_webhook_defs)
  have denied:
    "fst (Handle example_handler \<lparr>Operation = v1_Update, Object = ''sa2'', OldObject = ''sa1''\<rparr>)
       = Denied (''binded service account must be immutable, was changed from ''
           @ ServiceAccountID (Spec (example_key ''sa1'')) @ '' to ''
           @ ServiceAccountID (Spec (example_key ''sa2'')))"
    using differs decoded ValidateUpdate_immutable_ServiceAccountID
      [of "example_key ''sa2''" "example_key ''sa1''"
          "\<lparr>Operation = v1_Update, Object = ''sa2'', OldObject = ''sa1''\<rparr>" example_handler]
    by simp
  have allowed:
    "fst (Handle example_handler \<lparr>Operation = v1_Update, Object = ''sa1'', OldObject = ''sa1''\<rparr>)
       = Allowed []"
    using decoded ValidateUpdate_immutable_ServiceAccountID
      [of "example_key ''sa1''" "example_key ''sa1''"
          "\<lparr>Operation = v1_Update, Object = ''sa1'', OldObject = ''sa1''\<rparr>" example_handler]
    by simp
  show ?thesis
    using differs denied allowed by (simp add: example_key_def)
qed

text \<open>
  C10. On a static access key, \<open>ValidateCreation\<close> and \<open>ValidateDeletion\<close> return nil, so
  a dispatched create or delete that decodes to one is allowed. On an object of another
  type, each of the three methods (for \<open>ValidateUpdate\<close>, whichever of its two objects is
  of another type) returns the same plain error, which is not a ValidationError; so a
  dispatched create, update or delete whose payload decodes to an object of another type
  is answered with the internal-server-error status carrying that error, never with a
  denial and never with an allowance.
\<close>

theorem SAKeyValidator_type_mismatch_is_fault:
  "SAKeyValidator_ValidateCreation (StaticAccessKeyObject k) = None
   \<and> SAKeyValidator_ValidateDeletion (StaticAccessKeyObject k) = None
   \<and> handleValidationError (SAKeyValidator_ValidateCreation (StaticAccessKeyObject k)) = Allowed []
   \<and> handleValidationError (SAKeyValidator_ValidateDeletion (StaticAccessKeyObject k)) = Allowed []
   \<and> SAKeyValidator_ValidateCreation (OtherObject kind) = Some not_StaticAccessKey
   \<and> SAKeyValidator_ValidateDeletion (OtherObject kind) = Some not_StaticAccessKey
   \<and> SAKeyValidator_ValidateUpdate (OtherObject kind) obj = Some not_StaticAccessKey
   \<and> SAKeyValidator_ValidateUpdate obj (OtherObject kind) = Some not_StaticAccessKey
   \<and> not_StaticAccessKey = PlainError ''object is not of the StaticAccessKey type''
   \<and> Is_ValidationError not_StaticAccessKey = False
   \<and> handleValidationError (Some not_StaticAccessKey)
       = Errored StatusInternalServerError not_StaticAccessKey
   \<and> StatusInternalServerError = 500
   \<and> (validator r = SAKeyValidator \<and> Operation req = v1_Create
        \<and> decoder r (Object req) (object r) = Inr (StaticAccessKeyObject k) \<longrightarrow>
        Handle r req
          = (Allowed [], [Decode_Object, Call_ValidateCreation (StaticAccessKeyObject k)]))
   \<and> (validator r = SAKeyValidator \<and> Operation req = v1_Delete
        \<and> decoder r (OldObject req) (object r) = Inr (StaticAccessKeyObject k) \<longrightarrow>
        Handle r req
          = (Allowed [], [Decode_OldObject, Call_ValidateDeletion (StaticAccessKeyObject k)]))
   \<and> (validator r = SAKeyValidator \<and> Operation req = v1_Create
        \<and> decoder r (Object req) (object r) = Inr (OtherObject kind) \<longrightarrow>
        Handle r req
          = (Errored StatusInternalServerError not_StaticAccessKey,
             [Decode_Object, Call_ValidateCreation (OtherObject kind)]))
   \<and> (validator r = SAKeyValidator \<and> Operation req = v1_Delete
        \<and> decoder r (OldObject req) (object r) = Inr (OtherObject kind) \<longrightarrow>
        Handle r req
          = (Errored StatusInternalServerError not_StaticAccessKey,
             [Decode_OldObject, Call_ValidateDeletion (OtherObject kind)]))
   \<and> (validator r = SAKeyValidator \<and> Operation req = v1_Update
        \<and> decoder r (Object req) (object r) = Inr (OtherObject kind)
        \<and> decoder r (OldObject req) (object r) = Inr obj \<longrightarrow>
        Handle r req
          = (Errored StatusInternalServerError not_StaticAccessKey,
             [Decode_Object, Decode_OldObject, Call_ValidateUpdate (OtherObject kind) obj]))
   \<and> (validator r = SAKeyValidator \<and> Operation req = v1_Update
        \<and> decoder r (Object req) (object r) = Inr obj
        \<and> decoder r (OldObject req) (object r) = Inr (OtherObject kind) \<longrightarrow>
        Handle r req
          = (Errored StatusInternalServerError not_StaticAccessKey,
             [Decode_Object, Decode_OldObject, Call_ValidateUpdate obj (OtherObject kind)]))
   \<and> (validator r = SAKeyValidator
        \<and> (Call_ValidateCreation (OtherObject kind) \<in> set (snd (Handle r req))
           \<or> Call_ValidateDeletion (OtherObject kind) \<in> set (snd (Handle r req))
           \<or> Call_ValidateUpdate (OtherObject kind) obj \<in> set (snd (Handle r req))
           \<or> Call_ValidateUpdate obj (OtherObject kind) \<in> set (snd (Handle r req))) \<longrightarrow>
        fst (Handle r req) = Errored StatusInternalServerError not_StaticAccessKey)"
proof -
  have methods:
    "SAKeyValidator_ValidateCreation (StaticAccessKeyObject k) = None"
    "SAKeyValidator_ValidateDeletion (StaticAccessKeyObject k) = None"
    "SAKeyValidator_ValidateCreation (OtherObject kind) = Some not_StaticAccessKey"
    "SAKeyValidator_ValidateDeletion (OtherObject kind) = Some not_StaticAccessKey"
    "SAKeyValidator_ValidateUpdate (OtherObject kind) obj = Some not_StaticAccessKey"
    by simp_all
  have update_old:
    "SAKeyValidator_ValidateUpdate obj (OtherObject kind) = Some not_StaticAccessKey"
    by (cases obj) simp_all
  have classes:
    "handleValidationError None = Allowed []"
    "not_StaticAccessKey = PlainError ''object is not of the StaticAccessKey type''"
    "Is_ValidationError not_StaticAccessKey = False"
    "handleValidationError (Some not_StaticAccessKey)
       = Errored StatusInternalServerError not_StaticAccessKey"
    "StatusInternalServerError = 500"
    by (simp_all add: handleValidationError_def not_StaticAccessKey_def
          StatusInternalServerError_def)
  have well_typed:
    "validator r = SAKeyValidator \<and> Operation req = v1_Create
        \<and> decoder r (Object req) (object r) = Inr (StaticAccessKeyObject k) \<longrightarrow>
     Handle r req
       = (Allowed [], [Decode_Object, Call_ValidateCreation (StaticAccessKeyObject k)])"
    "validator r = SAKeyValidator \<and> Operation req = v1_Delete
        \<and> decoder r (OldObject req) (object r) = Inr (StaticAccessKeyObject k) \<longrightarrow>
     Handle r req
       = (Allowed [], [Decode_OldObject, Call_ValidateDeletion (StaticAccessKeyObject k)])"
    by (simp_all add: Handle_Create Handle_Delete SAKeyValidator_def classes(1))
  have mistyped:
    "validator r = SAKeyValidator \<and> Operation req = v1_Create
        \<and> decoder r (Object req) (object r) = Inr (OtherObject kind) \<longrightarrow>
     Handle r req
       = (Errored StatusInternalServerError not_StaticAccessKey,
          [Decode_Object, Call_ValidateCreation (OtherObject kind)])"
    "validator r = SAKeyValidator \<and> Operation req = v1_Delete
        \<and> decoder r (OldObject req) (object r) = Inr (OtherObject kind) \<longrightarrow>
     Handle r req
       = (Errored StatusInternalServerError not_StaticAccessKey,
          [Decode_OldObject, Call_ValidateDeletion (OtherObject kind)])"
    "validator r = SAKeyValidator \<and> Operation req = v1_Update
        \<and> decoder r (Object req) (object r) = Inr (OtherObject kind)
        \<and> decoder r (OldObject req) (object r) = Inr obj \<longrightarrow>
     Handle r req
       = (Errored StatusInternalServerError not_StaticAccessKey,
          [Decode_Object, Decode_OldObject, Call_ValidateUpdate (OtherObject kind) obj])"
    "validator r = SAKeyValidator \<and> Operation req = v1_Update
        \<and> decoder r (Object req) (object r) = Inr obj
        \<and> decoder r (OldObject req) (object r) = Inr (OtherObject kind) \<longrightarrow>
     Handle r req
       = (Errored StatusInternalServerError not_StaticAccessKey,
          [Decode_Object, Decode_OldObject, Call_ValidateUpdate obj (OtherObject kind)])"
    by (simp_all add: Handle_Create Handle_Delete Handle_Update SAKeyValidator_def
          classes(4) update_old)
  have dispatched:
    "validator r = SAKeyValidator
        \<and> (Call_ValidateCreation (OtherObject kind) \<in> set (snd (Handle r req))
           \<or> Call_ValidateDeletion (OtherObject kind) \<in> set (snd (Handle r req))
           \<or> Call_ValidateUpdate (OtherObject kind) obj \<in> set (snd (Handle r req))
           \<or> Call_ValidateUpdate obj (OtherObject kind) \<in> set (snd (Handle r req))) \<longrightarrow>
     fst (Handle r req) = Errored StatusInternalServerError not_StaticAccessKey"
    using methods update_old classes(4)
      Handle_ValidateCreation_response [of "OtherObject kind" r req]
      Handle_ValidateDeletion_response [of "OtherObject kind" r req]
      Handle_ValidateUpdate_response [of "OtherObject kind" obj r req]
      Handle_ValidateUpdate_response [of obj "OtherObject kind" r req]
    by (auto simp: SAKeyValidator_def)
  show ?thesis
    by (intro conjI methods update_old classes(2-5) well_typed mistyped dispatched)
       (simp_all add: methods classes(1,4))
qed

theorem SAKeyValidator_type_mismatch_is_fault_witness:
  "validator example_handler_other = SAKeyValidator
   \<and> decoder example_handler_other ''sa1'' (object example_handler_other)
       = Inr (OtherObject ''Secret'')
   \<and> decoder example_handler_other ''sa2'' (object example_handler_other)
       = Inr (OtherObject ''Secret'')
   \<and> Handle example_handler_other \<lparr>Operation = v1_Create, Object = ''sa1'', OldObject = []\<rparr>
       = (Errored 500 (PlainError ''object is not of the StaticAccessKey type''),
          [Decode_Object, Call_ValidateCreation (OtherObject ''Secret'')])
   \<and> Handle example_handler_other
        \<lparr>Operation = v1_Update, Object = ''sa2'', OldObject = ''sa1''\<rparr>
       = (Errored 500 (PlainError ''object is not of the StaticAccessKey type''),
          [Decode_Object, Decode_OldObject,
           Call_ValidateUpdate (OtherObject ''Secret'') (OtherObject ''Secret'')])
   \<and> Handle example_handler_other \<lparr>Operation = v1_Delete, Object = [], OldObject = ''sa1''\<rparr>
       = (Errored 500 (PlainError ''object is not of the StaticAccessKey type''),
          [Decode_OldObject, Call_ValidateDeletion (OtherObject ''Secret'')])
   \<and> validator example_handler = SAKeyValidator
   \<and> decoder example_handler ''sa1'' (object example_handler)
       = Inr (StaticAccessKeyObject (example_key ''sa1''))
   \<and> Handle example_handler \<lparr>Operation = v1_Create, Object = ''sa1'', OldObject = []\<rparr>
       = (Allowed [],
          [Decode_Object, Call_ValidateCreation (StaticAccessKeyObject (example_key ''sa1''))])
   \<and> Handle example_handler \<lparr>Operation = v1_Delete, Object = [], OldObject = ''sa1''\<rparr>
       = (Allowed [],
          [Decode_OldObject, Call_ValidateDeletion (StaticAccessKeyObject (example_key ''sa1''))])"
proof -
  have other:
    "validator example_handler_other = SAKeyValidator"
    "decoder example_handler_other ''sa1'' (object example_handler_other)
       = Inr (OtherObject ''Secret'')"
    "decoder example_handler_other ''sa2'' (object example_handler_other)
       = Inr (OtherObject ''Secret'')"
    by (simp_all add: example_handler_other_def example_decoder_def)
  have key:
    "validator example_handler = SAKeyValidator"
    "decoder example_handler ''sa1'' (object example_handler)
       = Inr (StaticAccessKeyObject (example_key ''sa1''))"
    by (simp_all add: example_handler_def example_decoder_def example_key_def)
  have fault: "Errored StatusInternalServerError not_StaticAccessKey
      = Errored 500 (PlainError ''object is not of the StaticAccessKey type'')"
    by (simp add: StatusInternalServerError_def not_StaticAccessKey_def)
  have created:
    "Handle example_handler_other \<lparr>Operation = v1_Create, Object = ''sa1'', OldObject = []\<rparr>
       = (Errored StatusInternalServerError not_StaticAccessKey,
          [Decode_Object, Call_ValidateCreation (OtherObject ''Secret'')])"
    using other SAKeyValidator_type_mismatch_is_fault
      [of "example_key ''sa1''" "''Secret''" "OtherObject ''Secret''" example_handler_other
          "\<lparr>Operation = v1_Create, Object = ''sa1'', OldObject = []\<rparr>"]
    by simp
  have updated:
    "Handle example_handler_other
        \<lparr>Operation = v1_Update, Object = ''sa2'', OldObject = ''sa1''\<rparr>
       = (Errored StatusInternalServerError not_StaticAccessKey,
          [Decode_Object, Decode_OldObject,
           Call_ValidateUpdate (OtherObject ''Secret'') (OtherObject ''Secret'')])"
    using other SAKeyValidator_type_mismatch_is_fault
      [of "example_key ''sa1''" "''Secret''" "OtherObject ''Secret''" example_handler_other
          "\<lparr>Operation = v1_Update, Object = ''sa2'', OldObject = ''sa1''\<rparr>"]
    by simp
  have deleted:
    "Handle example_handler_other \<lparr>Operation = v1_Delete, Object = [], OldObject = ''sa1''\<rparr>
       = (Errored StatusInternalServerError not_StaticAccessKey,
          [Decode_OldObject, Call_ValidateDeletion (OtherObject ''Secret'')])"
    using other SAKeyValidator_type_mismatch_is_fault
      [of "example_key ''sa1''" "''Secret''" "OtherObject ''Secret''" example_handler_other
          "\<lparr>Operation = v1_Delete, Object = [], OldObject = ''sa1''\<rparr>"]
    by simp
  have allowed:
    "Handle example_handler \<lparr>Operation = v1_Create, Object = ''sa1'', OldObject = []\<rparr>
       = (Allowed [],
          [Decode_Object, Call_ValidateCreation (StaticAccessKeyObject (example_key ''sa1''))])"
    "Handle example_handler \<lparr>Operation = v1_Delete, Object = [], OldObject = ''sa1''\<rparr>
       = (Allowed [],
          [Decode_OldObject, Call_ValidateDeletion (StaticAccessKeyObject (example_key ''sa1''))])"
    using key SAKeyValidator_type_mismatch_is_fault
      [of "example_key ''sa1''" "''Secret''" "OtherObject ''Secret''" example_handler
          "\<lparr>Operation = v1_Create, Object = ''sa1'', OldObject = []\<rparr>"]
      SAKeyValidator_type_mismatch_is_fault
      [of "example_key ''sa1''" "''Secret''" "OtherObject ''Secret''" example_handler
          "\<lparr>Operation = v1_Delete, Object = [], OldObject = ''sa1''\<rparr>"]
    by simp_all
  show ?thesis
    by (intro conjI other key allowed)
       (simp_all only: created updated deleted fault)
qed

section \<open>Lemmas on the controller\<close>

lemma then_calls_sel:
  "fst (then_calls cs R) = fst R"
  "fst (snd (then_calls cs R)) = fst (snd R)"
  "snd (snd (then_calls cs R)) = cs @ snd (snd R)"
  by (cases R; simp)+

lemma phases_loop_Cons_cases:
  obtains
    (IsUpdated_error) isInitialized err s1 where
      "IsUpdated updater s = ((isInitialized, Some err), s1)"
      "phases_loop (updater # rest) i s = (GetErroredResult err, s1, [Call_IsUpdated i])"
  | (converged) s1 where
      "IsUpdated updater s = ((True, None), s1)"
      "phases_loop (updater # rest) i s =
         then_calls [Call_IsUpdated i] (phases_loop rest (Suc i) s1)"
  | (Update_error) s1 err s2 where
      "IsUpdated updater s = ((False, None), s1)"
      "Update updater s1 = (Some err, s2)"
      "phases_loop (updater # rest) i s =
         (GetErroredResult err, s2, [Call_IsUpdated i, Call_Update i])"
  | (updated) s1 s2 where
      "IsUpdated updater s = ((False, None), s1)"
      "Update updater s1 = (None, s2)"
      "phases_loop (updater # rest) i s =
         then_calls [Call_IsUpdated i, Call_Update i] (phases_loop rest (Suc i) s2)"
proof -
  obtain isInitialized err s1 where u: "IsUpdated updater s = ((isInitialized, err), s1)"
    by (metis prod.exhaust)
  obtain uerr s2 where up: "Update updater s1 = (uerr, s2)"
    by (metis prod.exhaust)
  show thesis
  proof (cases err)
    case (Some e)
    with u show thesis by (intro IsUpdated_error [of isInitialized e s1]) simp_all
  next
    case None
    show thesis
    proof (cases isInitialized)
      case True
      with u None show thesis by (intro converged [of s1]) simp_all
    next
      case False
      show thesis
      proof (cases uerr)
        case (Some e)
        with u None False up show thesis by (intro Update_error [of s1 e s2]) simp_all
      next
        case uNone: None
        with u None False up show thesis by (intro updated [of s1 s2]) simp_all
      qed
    qed
  qed
qed

lemma phases_loop_visits:
  "\<exists>k\<le>length ps. IsUpdated_calls (snd (snd (phases_loop ps i s))) = [i..<i + k]
      \<and> (fst (phases_loop ps i s) = GetNormalResult \<longrightarrow> k = length ps)"
proof (induction ps arbitrary: i s)
  case Nil
  show ?case by simp
next
  case (Cons updater rest)
  show ?case
  proof (cases rule: phases_loop_Cons_cases [of updater s rest i])
    case (IsUpdated_error isInitialized err s1)
    then show ?thesis by (intro exI [of _ 1]) simp
  next
    case (converged s1)
    from Cons.IH [of "Suc i" s1] obtain k where "k \<le> length rest"
      "IsUpdated_calls (snd (snd (phases_loop rest (Suc i) s1))) = [Suc i..<Suc i + k]"
      "fst (phases_loop rest (Suc i) s1) = GetNormalResult \<longrightarrow> k = length rest"
      by blast
    with converged show ?thesis
      by (intro exI [of _ "Suc k"]) (simp add: then_calls_sel upt_conv_Cons)
  next
    case (Update_error s1 err s2)
    then show ?thesis by (intro exI [of _ 1]) simp
  next
    case (updated s1 s2)
    from Cons.IH [of "Suc i" s2] obtain k where "k \<le> length rest"
      "IsUpdated_calls (snd (snd (phases_loop rest (Suc i) s2))) = [Suc i..<Suc i + k]"
      "fst (phases_loop rest (Suc i) s2) = GetNormalResult \<longrightarrow> k = length rest"
      by blast
    with updated show ?thesis
      by (intro exI [of _ "Suc k"]) (simp add: then_calls_sel upt_conv_Cons)
  qed
qed

lemma phases_loop_visits_from:
  "set (IsUpdated_calls (snd (snd (phases_loop ps i s)))) \<subseteq> {i..<i + length ps}"
proof -
  from phases_loop_visits [of ps i s] obtain k where "k \<le> length ps"
    "IsUpdated_calls (snd (snd (phases_loop ps i s))) = [i..<i + k]"
    by blast
  then show ?thesis by auto
qed

lemma phases_loop_updates:
  "sorted_wrt (<) (Update_calls (snd (snd (phases_loop ps i s))))
   \<and> set (Update_calls (snd (snd (phases_loop ps i s))))
       \<subseteq> set (IsUpdated_calls (snd (snd (phases_loop ps i s))))"
proof (induction ps arbitrary: i s)
  case Nil
  show ?case by simp
next
  case (Cons updater rest)
  show ?case
  proof (cases rule: phases_loop_Cons_cases [of updater s rest i])
    case (IsUpdated_error isInitialized err s1)
    then show ?thesis by simp
  next
    case (converged s1)
    with Cons.IH [of "Suc i" s1] show ?thesis
      by (auto simp: then_calls_sel)
  next
    case (Update_error s1 err s2)
    then show ?thesis by simp
  next
    case (updated s1 s2)
    have "\<forall>j \<in> set (Update_calls (snd (snd (phases_loop rest (Suc i) s2)))). i < j"
      using Cons.IH [of "Suc i" s2] phases_loop_visits_from [of rest "Suc i" s2] by fastforce
    with updated Cons.IH [of "Suc i" s2] show ?thesis
      by (auto simp: then_calls_sel)
  qed
qed

lemma phases_loop_no_Cleanup:
  "Cleanup_calls (snd (snd (phases_loop ps i s))) = []"
proof (induction ps arbitrary: i s)
  case Nil
  show ?case by simp
next
  case (Cons updater rest)
  show ?case
    by (cases rule: phases_loop_Cons_cases [of updater s rest i])
       (simp_all add: then_calls_sel Cons.IH)
qed

lemma phases_loop_result:
  "fst (phases_loop ps i s) \<noteq> GetNeverResult"
proof (induction ps arbitrary: i s)
  case Nil
  show ?case by simp
next
  case (Cons updater rest)
  show ?case
    by (cases rule: phases_loop_Cons_cases [of updater s rest i])
       (simp_all add: then_calls_sel Cons.IH)
qed

lemma mustBeFinalized_no_error:
  "snd (mustBeFinalized FinalizerName registry) = None"
  by (simp add: mustBeFinalized_def)

lemma Reconcile_loaded:
  "Get r w req = Inr resource \<Longrightarrow>
   Reconcile FinalizerName r w req =
     (if fst (mustBeFinalized FinalizerName resource) then
        (case finalize r (resource, w) of
           (Some err, s1, cs) \<Rightarrow> (GetErroredResult err, snd s1, cs)
         | (None, s1, cs) \<Rightarrow> (GetNormalResult, snd s1, cs))
      else
        (case phases_loop (phases r) 0 (resource, w) of
           (res, s1, cs) \<Rightarrow> (res, snd s1, cs)))"
  by (simp add: Reconcile_def mustBeFinalized_def)

lemma Reconcile_forward:
  assumes "Get r w req = Inr resource"
    and "\<not> fst (mustBeFinalized FinalizerName resource)"
  shows "fst (Reconcile FinalizerName r w req) = fst (phases_loop (phases r) 0 (resource, w))"
    and "fst (snd (Reconcile FinalizerName r w req))
           = snd (fst (snd (phases_loop (phases r) 0 (resource, w))))"
    and "snd (snd (Reconcile FinalizerName r w req))
           = snd (snd (phases_loop (phases r) 0 (resource, w)))"
  using assms by (simp_all add: Reconcile_loaded split: prod.splits)

lemma Reconcile_finalizing:
  assumes "Get r w req = Inr resource"
    and "fst (mustBeFinalized FinalizerName resource)"
  shows "fst (Reconcile FinalizerName r w req)
           = (case fst (finalize r (resource, w)) of
                Some err \<Rightarrow> GetErroredResult err | None \<Rightarrow> GetNormalResult)"
    and "fst (snd (Reconcile FinalizerName r w req))
           = snd (fst (snd (finalize r (resource, w))))"
    and "snd (snd (Reconcile FinalizerName r w req))
           = snd (snd (finalize r (resource, w)))"
  using assms by (simp_all add: Reconcile_loaded split: prod.splits option.splits)

lemma finalize_loop_cleanup_each:
  "n \<le> length ps \<Longrightarrow>
   finalize_loop ps n s = cleanup_each (rev (zip [0..<n] (take n ps))) s"
proof (induction n arbitrary: s)
  case 0
  show ?case by simp
next
  case (Suc n)
  then have n: "n < length ps" "n \<le> length ps" by simp_all
  have "zip [0..<Suc n] (take (Suc n) ps) = zip ([0..<n] @ [n]) (take n ps @ [ps ! n])"
    using n by (simp add: take_Suc_conv_app_nth)
  also have "\<dots> = zip [0..<n] (take n ps) @ [(n, ps ! n)]"
    using n by (subst zip_append) simp_all
  finally have z: "rev (zip [0..<Suc n] (take (Suc n) ps))
      = (n, ps ! n) # rev (zip [0..<n] (take n ps))"
    by simp
  show ?case
    unfolding z finalize_loop.simps cleanup_each.simps Suc.IH [OF n(2)] ..
qed

lemma finalize_cleanup_each:
  "finalize r s = cleanup_each (rev (enumerate 0 (phases r))) s"
  by (simp add: finalize_def finalize_loop_cleanup_each enumerate_eq_zip)

lemma cleanup_each_calls:
  "\<exists>k\<le>length xs. snd (snd (cleanup_each xs s)) = map Call_Cleanup (take k (map fst xs))
      \<and> (fst (cleanup_each xs s) = None \<longrightarrow> k = length xs)
      \<and> (fst (cleanup_each xs s) \<noteq> None \<longrightarrow> 0 < k)"
proof (induction xs arbitrary: s)
  case Nil
  show ?case by (rule exI [of _ 0]) simp
next
  case (Cons x xs)
  obtain i p where x: "x = (i, p)" by (cases x)
  obtain err s1 where c: "Cleanup p s = (err, s1)" by (cases "Cleanup p s")
  show ?case
  proof (cases err)
    case (Some e)
    show ?thesis
      unfolding x by (rule exI [of _ 1]) (simp add: c Some)
  next
    case None
    from Cons.IH [of s1] obtain k where "k \<le> length xs
      \<and> snd (snd (cleanup_each xs s1)) = map Call_Cleanup (take k (map fst xs))
      \<and> (fst (cleanup_each xs s1) = None \<longrightarrow> k = length xs)
      \<and> (fst (cleanup_each xs s1) \<noteq> None \<longrightarrow> 0 < k)" ..
    then have k: "k \<le> length xs"
      "snd (snd (cleanup_each xs s1)) = map Call_Cleanup (take k (map fst xs))"
      "fst (cleanup_each xs s1) = None \<longrightarrow> k = length xs"
      by simp_all
    show ?thesis
      unfolding x
      apply (rule exI [of _ "Suc k"])
      apply (simp add: c None then_calls_sel)
      apply (simp add: k)
      done
  qed
qed


lemma finalize_calls:
  "\<exists>k\<le>length (phases r).
      snd (snd (finalize r s)) = map Call_Cleanup (take k (rev [0..<length (phases r)]))
      \<and> (fst (finalize r s) = None \<longrightarrow> k = length (phases r))
      \<and> (fst (finalize r s) \<noteq> None \<longrightarrow> 0 < k)"
proof -
  have "map fst (rev (enumerate 0 (phases r))) = rev [0..<length (phases r)]"
    by (simp add: rev_map [symmetric])
  with cleanup_each_calls [of "rev (enumerate 0 (phases r))" s] show ?thesis
    by (simp add: finalize_cleanup_each)
qed

lemma Cleanup_calls_map: "Cleanup_calls (map Call_Cleanup is) = is"
  by (induction "is") simp_all

lemma IsUpdated_calls_map: "IsUpdated_calls (map Call_Cleanup is) = []"
  by (induction "is") simp_all

lemma Update_calls_map: "Update_calls (map Call_Cleanup is) = []"
  by (induction "is") simp_all

lemma finalize_two_phases:
  "phases r = [A, B] \<Longrightarrow>
   snd (snd (finalize r s)) =
     (if fst (Cleanup B s) = None then [Call_Cleanup 1, Call_Cleanup 0] else [Call_Cleanup 1])"
proof -
  assume ps: "phases r = [A, B]"
  obtain err s1 where c: "Cleanup B s = (err, s1)" by (cases "Cleanup B s")
  obtain err0 s0 where c0: "Cleanup A s1 = (err0, s0)" by (cases "Cleanup A s1")
  have f: "finalize r s = finalize_loop [A, B] (Suc (Suc 0)) s"
    by (simp add: finalize_def ps)
  show ?thesis
    unfolding f by (cases err; cases err0) (simp_all add: c c0)
qed

lemma finalize_two_phases_error:
  "phases r = [A, B] \<Longrightarrow> fst (Cleanup B s) = Some e \<Longrightarrow>
   fst (finalize r s) = Some (PlainError (''error during finalization: '' @ Error e))"
proof -
  assume ps: "phases r = [A, B]" and e: "fst (Cleanup B s) = Some e"
  obtain s1 where c: "Cleanup B s = (Some e, s1)"
    using e by (cases "Cleanup B s") simp
  have f: "finalize r s = finalize_loop [A, B] (Suc (Suc 0)) s"
    by (simp add: finalize_def ps)
  show ?thesis
    unfolding f by (simp add: c)
qed

lemma phases_loop_first_call:
  "\<exists>cs. snd (snd (phases_loop (updater # rest) i s)) = Call_IsUpdated i # cs"
  by (cases rule: phases_loop_Cons_cases [of updater s rest i])
     (simp_all add: then_calls_sel)

lemma phases_loop_continues:
  assumes "IsUpdated A s = ((False, None), s1)" and "Update A s1 = (None, s2)"
  shows "take 3 (snd (snd (phases_loop (A # B # rest) i s)))
           = [Call_IsUpdated i, Call_Update i, Call_IsUpdated (Suc i)]"
proof -
  obtain cs where "snd (snd (phases_loop (B # rest) (Suc i) s2)) = Call_IsUpdated (Suc i) # cs"
    using phases_loop_first_call [of B rest "Suc i" s2] ..
  with assms show ?thesis
    by (simp add: then_calls_sel)
qed

lemma phases_loop_Update_count:
  "length (Update_calls (snd (snd (phases_loop ps i s)))) \<le> length ps"
proof -
  let ?us = "Update_calls (snd (snd (phases_loop ps i s)))"
  have "distinct ?us"
    using phases_loop_updates [of ps i s] by (simp add: strict_sorted_iff)
  then have "length ?us = card (set ?us)"
    by (simp add: distinct_card)
  also have "\<dots> \<le> card {i..<i + length ps}"
    using phases_loop_updates [of ps i s] phases_loop_visits_from [of ps i s]
    by (intro card_mono) auto
  finally show ?thesis by simp
qed






lemma phases_loop_second_fails:
  assumes "IsUpdated B s1 = ((b, Some err), s2)"
  shows "IsUpdated A s = ((True, None), s1) \<Longrightarrow>
           phases_loop (A # B # rest) i s
             = (GetErroredResult err, s2, [Call_IsUpdated i, Call_IsUpdated (Suc i)])"
    and "IsUpdated A s = ((False, None), s0) \<Longrightarrow> Update A s0 = (None, s1) \<Longrightarrow>
           phases_loop (A # B # rest) i s
             = (GetErroredResult err, s2,
                [Call_IsUpdated i, Call_Update i, Call_IsUpdated (Suc i)])"
  using assms by simp_all

lemma phases_loop_single:
  "IsUpdated A s = ((True, None), s1) \<Longrightarrow>
     phases_loop [A] i s = (GetNormalResult, s1, [Call_IsUpdated i])"
  "IsUpdated A s = ((False, None), s1) \<Longrightarrow> Update A s1 = (None, s2) \<Longrightarrow>
     phases_loop [A] i s = (GetNormalResult, s2, [Call_IsUpdated i, Call_Update i])"
  by simp_all

subsection \<open>The example controller at work\<close>

lemmas example_controller_defs =
  example_reconciler_def example_Get_def example_state_def example_resource_def
  FinalizerRegistrar_def ResourceAllocator_def example_marker_def adapter_unavailable_def
  example_reconciler_unreachable_def unreachable_Get_def

lemma ex_Get:
  "Get example_reconciler (example_state deleted fins bucket down) ''storage''
     = Inr (example_resource deleted fins)"
  "Get example_reconciler (example_state deleted fins bucket down) ''other''
     = Inl (StatusError StatusReasonNotFound ''other not found'')"
  "Get example_reconciler_unreachable (example_state deleted fins bucket down) ''storage''
     = Inl (StatusError ''ServiceUnavailable'' ''store unreachable'')"
  by (simp_all add: example_controller_defs)

lemma ex_IsNotFound:
  "IsNotFound (StatusError StatusReasonNotFound ''other not found'')"
  "\<not> IsNotFound (StatusError ''ServiceUnavailable'' ''store unreachable'')"
  by (simp_all add: StatusReasonNotFound_def)

lemma ex_resource:
  "DeletionTimestamp (example_resource deleted fins) = deleted"
  "Finalizers (example_resource deleted fins) = fins"
  by (simp_all add: example_resource_def)

lemma ex_marker:
  "IsZero None" "\<not> IsZero (Some 1)"
  "\<not> ContainsString [] example_marker"
  "\<not> ContainsString [''other.finalizer''] example_marker"
  "ContainsString [example_marker] example_marker"
  by (simp_all add: IsZero_def example_marker_def)

lemma ex_live:
  "Reconcile example_marker example_reconciler (example_state None [] False False) ''storage''
   = (GetNormalResult, example_state None [example_marker] True False,
      [Call_IsUpdated 0, Call_Update 0, Call_IsUpdated 1, Call_Update 1])"
  by (simp add: Reconcile_def mustBeFinalized_def IsZero_def example_controller_defs then_calls_sel)

lemma ex_live_adapter_down:
  "Reconcile example_marker example_reconciler (example_state None [] False True) ''storage''
   = (GetErroredResult (PlainError ''adapter unavailable''),
      example_state None [example_marker] False True,
      [Call_IsUpdated 0, Call_Update 0, Call_IsUpdated 1])"
  by (simp add: Reconcile_def mustBeFinalized_def IsZero_def example_controller_defs then_calls_sel)


lemma ex_deleted_other_marker:
  "Reconcile example_marker example_reconciler
     (example_state (Some 1) [''other.finalizer''] True False) ''storage''
   = (GetNormalResult,
      example_state (Some 1) [''other.finalizer'', example_marker] True False,
      [Call_IsUpdated 0, Call_Update 0, Call_IsUpdated 1])"
  by (simp add: Reconcile_def mustBeFinalized_def IsZero_def example_controller_defs then_calls_sel)

lemma ex_finalized:
  "Reconcile example_marker example_reconciler
     (example_state (Some 1) [example_marker] True False) ''storage''
   = (GetNormalResult, example_state (Some 1) [] False False,
      [Call_Cleanup 1, Call_Cleanup 0])"
  by (simp add: Reconcile_def mustBeFinalized_def IsZero_def example_controller_defs
        then_calls_sel finalize_def numeral_2_eq_2)

lemma ex_finalize_fails:
  "Reconcile example_marker example_reconciler
     (example_state (Some 1) [example_marker] True True) ''storage''
   = (GetErroredResult (PlainError ''error during finalization: adapter unavailable''),
      example_state (Some 1) [example_marker] True True,
      [Call_Cleanup 1])"
  by (simp add: Reconcile_def mustBeFinalized_def IsZero_def example_controller_defs
        then_calls_sel finalize_def numeral_2_eq_2)



lemma ex_deleted_registrar:
  "Reconcile example_marker example_reconciler_registrar
     (example_state (Some 1) [] False False) ''storage''
   = (GetNormalResult, example_state (Some 1) [example_marker] False False,
      [Call_IsUpdated 0, Call_Update 0])"
  by (simp add: Reconcile_def mustBeFinalized_def IsZero_def example_controller_defs
        example_reconciler_registrar_def then_calls_sel)

lemma ex_deleted_unmarked_adapter_down:
  "Reconcile example_marker example_reconciler (example_state (Some 1) [] False True) ''storage''
   = (GetErroredResult (PlainError ''adapter unavailable''),
      example_state (Some 1) [example_marker] False True,
      [Call_IsUpdated 0, Call_Update 0, Call_IsUpdated 1])"
  by (simp add: Reconcile_def mustBeFinalized_def IsZero_def example_controller_defs then_calls_sel)


section \<open>Properties of the reconciliation controller\<close>

text \<open>
  C6. When loading the resource fails with not-found, the invocation ends with the
  never result, which carries no error, leaves the world as it was and touches no phase;
  when it fails with any other error, the invocation ends with the errored result
  carrying that error, again without touching a phase.
\<close>

theorem Reconcile_load_failure:
  "Get r w req = Inl err \<Longrightarrow>
   (IsNotFound err \<longrightarrow>
      Reconcile FinalizerName r w req = (GetNeverResult, w, [])
      \<and> reported_error (fst (Reconcile FinalizerName r w req)) = None)
   \<and> (\<not> IsNotFound err \<longrightarrow>
      Reconcile FinalizerName r w req = (GetErroredResult err, w, [])
      \<and> reported_error (fst (Reconcile FinalizerName r w req)) = Some err)"
  by (simp add: Reconcile_def)

theorem Reconcile_load_failure_witness:
  "Get example_reconciler (example_state None [] False False) ''other''
     = Inl (StatusError StatusReasonNotFound ''other not found'')
   \<and> IsNotFound (StatusError StatusReasonNotFound ''other not found'')
   \<and> Reconcile example_marker example_reconciler (example_state None [] False False) ''other''
     = (GetNeverResult, example_state None [] False False, [])
   \<and> reported_error (fst (Reconcile example_marker example_reconciler
        (example_state None [] False False) ''other'')) = None
   \<and> Get example_reconciler_unreachable (example_state None [] False False) ''storage''
     = Inl (StatusError ''ServiceUnavailable'' ''store unreachable'')
   \<and> \<not> IsNotFound (StatusError ''ServiceUnavailable'' ''store unreachable'')
   \<and> Reconcile example_marker example_reconciler_unreachable
        (example_state None [] False False) ''storage''
     = (GetErroredResult (StatusError ''ServiceUnavailable'' ''store unreachable''),
        example_state None [] False False, [])"
proof -
  have gone:
    "Reconcile example_marker example_reconciler (example_state None [] False False) ''other''
       = (GetNeverResult, example_state None [] False False, [])
     \<and> reported_error (fst (Reconcile example_marker example_reconciler
          (example_state None [] False False) ''other'')) = None"
    using Reconcile_load_failure [OF ex_Get(2) [of None "[]" False False], of example_marker]
      ex_IsNotFound(1)
    by blast
  have fault:
    "Reconcile example_marker example_reconciler_unreachable
        (example_state None [] False False) ''storage''
     = (GetErroredResult (StatusError ''ServiceUnavailable'' ''store unreachable''),
        example_state None [] False False, [])"
    using Reconcile_load_failure [OF ex_Get(3) [of None "[]" False False], of example_marker]
      ex_IsNotFound(2)
    by blast
  from gone fault show ?thesis
    using ex_Get(2,3) ex_IsNotFound by blast
qed

text \<open>
  C9. \<open>mustBeFinalized\<close> returns a nil error for every resource. The branch of
  \<open>Reconcile\<close> that would report its error is therefore never taken: once the resource
  is loaded, the invocation is the finalization when the decision is true and the forward
  walk when it is false, and nothing else.
\<close>

theorem mustBeFinalized_never_fails:
  "snd (mustBeFinalized FinalizerName registry) = None
   \<and> (Get r w req = Inr resource \<longrightarrow>
        Reconcile FinalizerName r w req =
          (if fst (mustBeFinalized FinalizerName resource) then
             (case finalize r (resource, w) of
                (Some err, s1, cs) \<Rightarrow> (GetErroredResult err, snd s1, cs)
              | (None, s1, cs) \<Rightarrow> (GetNormalResult, snd s1, cs))
           else
             (case phases_loop (phases r) 0 (resource, w) of
                (res, s1, cs) \<Rightarrow> (res, snd s1, cs))))"
  using mustBeFinalized_no_error [of FinalizerName registry]
    Reconcile_loaded [of r w req resource FinalizerName]
  by blast

theorem mustBeFinalized_never_fails_witness:
  "snd (mustBeFinalized example_marker (example_resource (Some 1) [example_marker])) = None
   \<and> Get example_reconciler (example_state (Some 1) [example_marker] True False) ''storage''
       = Inr (example_resource (Some 1) [example_marker])
   \<and> fst (mustBeFinalized example_marker (example_resource (Some 1) [example_marker]))
   \<and> Reconcile example_marker example_reconciler
         (example_state (Some 1) [example_marker] True False) ''storage''
       = (case finalize example_reconciler
                 (example_resource (Some 1) [example_marker],
                  example_state (Some 1) [example_marker] True False) of
            (Some err, s1, cs) \<Rightarrow> (GetErroredResult err, snd s1, cs)
          | (None, s1, cs) \<Rightarrow> (GetNormalResult, snd s1, cs))
   \<and> Reconcile example_marker example_reconciler
         (example_state (Some 1) [example_marker] True False) ''storage''
       = (GetNormalResult, example_state (Some 1) [] False False,
          [Call_Cleanup 1, Call_Cleanup 0])"
proof -
  have decided:
    "fst (mustBeFinalized example_marker (example_resource (Some 1) [example_marker]))"
    by (simp add: mustBeFinalized_def ex_resource ex_marker)
  note never =
    mustBeFinalized_never_fails
      [of example_marker "example_resource (Some 1) [example_marker]" example_reconciler
          "example_state (Some 1) [example_marker] True False" "''storage''"
          "example_resource (Some 1) [example_marker]"]
  from never have nil:
    "snd (mustBeFinalized example_marker (example_resource (Some 1) [example_marker])) = None"
    by (rule conjunct1)
  from never decided ex_Get(1) [of "Some 1" "[example_marker]" True False]
  have branch:
    "Reconcile example_marker example_reconciler
         (example_state (Some 1) [example_marker] True False) ''storage''
       = (case finalize example_reconciler
                 (example_resource (Some 1) [example_marker],
                  example_state (Some 1) [example_marker] True False) of
            (Some err, s1, cs) \<Rightarrow> (GetErroredResult err, snd s1, cs)
          | (None, s1, cs) \<Rightarrow> (GetNormalResult, snd s1, cs))"
    by simp
  from nil decided branch ex_Get(1) [of "Some 1" "[example_marker]" True False] ex_finalized
  show ?thesis by (simp only: simp_thms)
qed

text \<open>
  C3. For a loaded resource whose deletion timestamp is set and whose finalizers contain
  the marker, the invocation is the finalization: it calls \<open>Cleanup\<close> on the phases in
  the exact reverse of the configured order, one after the other without skipping, stops
  at the first one that fails and reports the errored result; it reports the normal
  result only when every phase has been cleaned up, and calls no other method. For two
  phases \<open>[A, B]\<close> the cleanup of \<open>B\<close> comes first and that of \<open>A\<close> follows only when
  the first succeeded; a failure of \<open>B\<close> is reported as the finalization error.
\<close>

theorem finalize_reverse_order:
  assumes loaded: "Get r w req = Inr resource"
    and deleted: "\<not> IsZero (DeletionTimestamp resource)"
    and marked: "ContainsString (Finalizers resource) FinalizerName"
  shows
    "finalize r (resource, w) = cleanup_each (rev (enumerate 0 (phases r))) (resource, w)
     \<and> snd (snd (Reconcile FinalizerName r w req)) = snd (snd (finalize r (resource, w)))
     \<and> fst (Reconcile FinalizerName r w req)
         = (case fst (finalize r (resource, w)) of
              Some err \<Rightarrow> GetErroredResult err | None \<Rightarrow> GetNormalResult)
     \<and> (\<exists>k\<le>length (phases r).
           snd (snd (Reconcile FinalizerName r w req))
             = map Call_Cleanup (take k (rev [0..<length (phases r)]))
           \<and> (fst (Reconcile FinalizerName r w req) = GetNormalResult \<longrightarrow> k = length (phases r))
           \<and> (fst (Reconcile FinalizerName r w req) \<noteq> GetNormalResult \<longrightarrow>
                0 < k \<and> (\<exists>err. fst (Reconcile FinalizerName r w req) = GetErroredResult err)))
     \<and> IsUpdated_calls (snd (snd (Reconcile FinalizerName r w req))) = []
     \<and> Update_calls (snd (snd (Reconcile FinalizerName r w req))) = []
     \<and> (\<forall>A B. phases r = [A, B] \<longrightarrow>
           snd (snd (Reconcile FinalizerName r w req))
             = (if fst (Cleanup B (resource, w)) = None then [Call_Cleanup 1, Call_Cleanup 0]
                else [Call_Cleanup 1])
           \<and> (\<forall>e. fst (Cleanup B (resource, w)) = Some e \<longrightarrow>
                 fst (Reconcile FinalizerName r w req)
                   = GetErroredResult (PlainError (''error during finalization: '' @ Error e))))"
proof -
  have must: "fst (mustBeFinalized FinalizerName resource)"
    using deleted marked by (simp add: mustBeFinalized_def)
  note rec = Reconcile_finalizing [OF loaded must]
  have spec: "finalize r (resource, w)
      = cleanup_each (rev (enumerate 0 (phases r))) (resource, w)"
    by (rule finalize_cleanup_each)
  obtain k where "k \<le> length (phases r)
      \<and> snd (snd (finalize r (resource, w)))
          = map Call_Cleanup (take k (rev [0..<length (phases r)]))
      \<and> (fst (finalize r (resource, w)) = None \<longrightarrow> k = length (phases r))
      \<and> (fst (finalize r (resource, w)) \<noteq> None \<longrightarrow> 0 < k)"
    using finalize_calls [of r "(resource, w)"] ..
  then have k: "snd (snd (finalize r (resource, w)))
          = map Call_Cleanup (take k (rev [0..<length (phases r)]))"
    "k \<le> length (phases r)"
    "fst (finalize r (resource, w)) = None \<longrightarrow> k = length (phases r)"
    "fst (finalize r (resource, w)) \<noteq> None \<longrightarrow> 0 < k"
    by simp_all
  have only_cleanup:
    "IsUpdated_calls (snd (snd (Reconcile FinalizerName r w req))) = []"
    "Update_calls (snd (snd (Reconcile FinalizerName r w req))) = []"
    by (simp_all only: rec(3) k(1) IsUpdated_calls_map Update_calls_map)
  from k have order:
    "\<exists>k\<le>length (phases r).
       snd (snd (Reconcile FinalizerName r w req))
         = map Call_Cleanup (take k (rev [0..<length (phases r)]))
       \<and> (fst (Reconcile FinalizerName r w req) = GetNormalResult \<longrightarrow> k = length (phases r))
       \<and> (fst (Reconcile FinalizerName r w req) \<noteq> GetNormalResult \<longrightarrow>
            0 < k \<and> (\<exists>err. fst (Reconcile FinalizerName r w req) = GetErroredResult err))"
    by (intro exI [of _ k]) (simp add: rec split: option.splits)
  have two:
    "\<forall>A B. phases r = [A, B] \<longrightarrow>
       snd (snd (Reconcile FinalizerName r w req))
         = (if fst (Cleanup B (resource, w)) = None then [Call_Cleanup 1, Call_Cleanup 0]
            else [Call_Cleanup 1])
       \<and> (\<forall>e. fst (Cleanup B (resource, w)) = Some e \<longrightarrow>
             fst (Reconcile FinalizerName r w req)
               = GetErroredResult (PlainError (''error during finalization: '' @ Error e)))"
    by (simp add: rec finalize_two_phases finalize_two_phases_error)
  from spec rec(1,3) order only_cleanup two show ?thesis by simp
qed

theorem finalize_reverse_order_witness:
  "Get example_reconciler (example_state (Some 1) [example_marker] True True) ''storage''
     = Inr (example_resource (Some 1) [example_marker])
   \<and> \<not> IsZero (DeletionTimestamp (example_resource (Some 1) [example_marker]))
   \<and> ContainsString (Finalizers (example_resource (Some 1) [example_marker])) example_marker
   \<and> phases example_reconciler = [FinalizerRegistrar example_marker, ResourceAllocator]
   \<and> Reconcile example_marker example_reconciler
        (example_state (Some 1) [example_marker] True False) ''storage''
       = (GetNormalResult, example_state (Some 1) [] False False,
          [Call_Cleanup 1, Call_Cleanup 0])
   \<and> fst (Cleanup ResourceAllocator (example_resource (Some 1) [example_marker],
        example_state (Some 1) [example_marker] True True)) = Some adapter_unavailable
   \<and> fst (Reconcile example_marker example_reconciler
        (example_state (Some 1) [example_marker] True True) ''storage'')
       = GetErroredResult (PlainError ''error during finalization: adapter unavailable'')
   \<and> snd (snd (Reconcile example_marker example_reconciler
        (example_state (Some 1) [example_marker] True True) ''storage''))
       = [Call_Cleanup 1]"
proof -
  have hyps:
    "\<not> IsZero (DeletionTimestamp (example_resource (Some 1) [example_marker]))"
    "ContainsString (Finalizers (example_resource (Some 1) [example_marker])) example_marker"
    by (simp_all add: ex_resource ex_marker)
  have ps: "phases example_reconciler = [FinalizerRegistrar example_marker, ResourceAllocator]"
    by (simp add: example_reconciler_def)
  have failing:
    "fst (Cleanup ResourceAllocator (example_resource (Some 1) [example_marker],
        example_state (Some 1) [example_marker] True True)) = Some adapter_unavailable"
    by (simp add: ResourceAllocator_def example_state_def)
  note order =
    finalize_reverse_order
      [OF ex_Get(1) [of "Some 1" "[example_marker]" True True] hyps, THEN conjunct2,
       THEN conjunct2, THEN conjunct2, THEN conjunct2, THEN conjunct2, THEN conjunct2,
       rule_format, OF ps]
  from order failing have reported:
    "fst (Reconcile example_marker example_reconciler
        (example_state (Some 1) [example_marker] True True) ''storage'')
       = GetErroredResult (PlainError (''error during finalization: '' @ Error adapter_unavailable))"
    by blast
  from order failing have calls:
    "snd (snd (Reconcile example_marker example_reconciler
        (example_state (Some 1) [example_marker] True True) ''storage''))
       = [Call_Cleanup 1]"
    by simp
  from hyps ps failing reported calls ex_finalized
    ex_Get(1) [of "Some 1" "[example_marker]" True True]
  show ?thesis by (simp add: adapter_unavailable_def)
qed

text \<open>
  C1, as the code has it. For a loaded live resource the forward walk does not stop after
  a successful \<open>Update\<close>: it visits the phases in configured order from the first one,
  calls \<open>IsUpdated\<close> on each phase it visits and \<open>Update\<close> only on visited phases, on
  each at most once and in increasing order, so at most as many times as there are
  phases; it calls no \<open>Cleanup\<close>; and when it ends with the normal result it has visited
  every phase. In particular, when the first phase is not converged and its \<open>Update\<close>
  succeeds, the second phase is touched in the same invocation; and when \<open>IsUpdated\<close> or
  \<open>Update\<close> of the first phase fails, the invocation ends there with that error.
\<close>

theorem Reconcile_forward_walk:
  assumes loaded: "Get r w req = Inr resource"
    and live: "IsZero (DeletionTimestamp resource)"
  shows
    "(\<exists>k\<le>length (phases r).
        IsUpdated_calls (snd (snd (Reconcile FinalizerName r w req))) = [0..<k]
        \<and> (fst (Reconcile FinalizerName r w req) = GetNormalResult \<longrightarrow> k = length (phases r)))
     \<and> sorted_wrt (<) (Update_calls (snd (snd (Reconcile FinalizerName r w req))))
     \<and> set (Update_calls (snd (snd (Reconcile FinalizerName r w req))))
          \<subseteq> set (IsUpdated_calls (snd (snd (Reconcile FinalizerName r w req))))
     \<and> length (Update_calls (snd (snd (Reconcile FinalizerName r w req)))) \<le> length (phases r)
     \<and> Cleanup_calls (snd (snd (Reconcile FinalizerName r w req))) = []
     \<and> fst (Reconcile FinalizerName r w req) \<noteq> GetNeverResult
     \<and> (\<forall>A B rest s1 s2.
           phases r = A # B # rest \<and> IsUpdated A (resource, w) = ((False, None), s1)
             \<and> Update A s1 = (None, s2) \<longrightarrow>
           take 3 (snd (snd (Reconcile FinalizerName r w req)))
             = [Call_IsUpdated 0, Call_Update 0, Call_IsUpdated 1])
     \<and> (\<forall>A rest b err s1.
           phases r = A # rest \<and> IsUpdated A (resource, w) = ((b, Some err), s1) \<longrightarrow>
           Reconcile FinalizerName r w req = (GetErroredResult err, snd s1, [Call_IsUpdated 0]))
     \<and> (\<forall>A rest err s1 s2.
           phases r = A # rest \<and> IsUpdated A (resource, w) = ((False, None), s1)
             \<and> Update A s1 = (Some err, s2) \<longrightarrow>
           Reconcile FinalizerName r w req
             = (GetErroredResult err, snd s2, [Call_IsUpdated 0, Call_Update 0]))"
proof -
  have must: "\<not> fst (mustBeFinalized FinalizerName resource)"
    using live by (simp add: mustBeFinalized_def)
  note rec = Reconcile_forward [OF loaded must]
  have visits:
    "\<exists>k\<le>length (phases r).
        IsUpdated_calls (snd (snd (Reconcile FinalizerName r w req))) = [0..<k]
        \<and> (fst (Reconcile FinalizerName r w req) = GetNormalResult \<longrightarrow> k = length (phases r))"
    using phases_loop_visits [of "phases r" 0 "(resource, w)"] by (simp add: rec)
  have updates:
    "sorted_wrt (<) (Update_calls (snd (snd (Reconcile FinalizerName r w req))))
     \<and> set (Update_calls (snd (snd (Reconcile FinalizerName r w req))))
          \<subseteq> set (IsUpdated_calls (snd (snd (Reconcile FinalizerName r w req))))"
    using phases_loop_updates [of "phases r" 0 "(resource, w)"] by (simp add: rec)
  have count:
    "length (Update_calls (snd (snd (Reconcile FinalizerName r w req)))) \<le> length (phases r)"
    using phases_loop_Update_count [of "phases r" 0 "(resource, w)"] by (simp add: rec)
  have others:
    "Cleanup_calls (snd (snd (Reconcile FinalizerName r w req))) = []"
    "fst (Reconcile FinalizerName r w req) \<noteq> GetNeverResult"
    by (simp_all add: rec phases_loop_no_Cleanup phases_loop_result)
  have continues:
    "\<forall>A B rest s1 s2.
       phases r = A # B # rest \<and> IsUpdated A (resource, w) = ((False, None), s1)
         \<and> Update A s1 = (None, s2) \<longrightarrow>
       take 3 (snd (snd (Reconcile FinalizerName r w req)))
         = [Call_IsUpdated 0, Call_Update 0, Call_IsUpdated 1]"
    using phases_loop_continues [of _ "(resource, w)" _ _ _ _ 0] by (auto simp: rec)
  have fails:
    "\<forall>A rest b err s1.
       phases r = A # rest \<and> IsUpdated A (resource, w) = ((b, Some err), s1) \<longrightarrow>
       Reconcile FinalizerName r w req = (GetErroredResult err, snd s1, [Call_IsUpdated 0])"
    "\<forall>A rest err s1 s2.
       phases r = A # rest \<and> IsUpdated A (resource, w) = ((False, None), s1)
         \<and> Update A s1 = (Some err, s2) \<longrightarrow>
       Reconcile FinalizerName r w req
         = (GetErroredResult err, snd s2, [Call_IsUpdated 0, Call_Update 0])"
    using must by (simp_all add: Reconcile_loaded [OF loaded])
  from visits updates count others continues fails show ?thesis by blast
qed

theorem Reconcile_forward_walk_witness:
  "Get example_reconciler (example_state None [] False True) ''storage''
     = Inr (example_resource None [])
   \<and> IsZero (DeletionTimestamp (example_resource None []))
   \<and> Reconcile example_marker example_reconciler (example_state None [] False True) ''storage''
       = (GetErroredResult (PlainError ''adapter unavailable''),
          example_state None [example_marker] False True,
          [Call_IsUpdated 0, Call_Update 0, Call_IsUpdated 1])
   \<and> length (Update_calls (snd (snd (Reconcile example_marker example_reconciler
        (example_state None [] False True) ''storage'')))) \<le> length (phases example_reconciler)
   \<and> Cleanup_calls (snd (snd (Reconcile example_marker example_reconciler
        (example_state None [] False True) ''storage''))) = []"
proof -
  have live: "IsZero (DeletionTimestamp (example_resource None []))"
    by (simp add: ex_resource ex_marker)
  note walk =
    Reconcile_forward_walk
      [OF ex_Get(1) [of None "[]" False True] live, of example_marker]
  from walk have count:
    "length (Update_calls (snd (snd (Reconcile example_marker example_reconciler
        (example_state None [] False True) ''storage'')))) \<le> length (phases example_reconciler)"
    by blast
  from walk have no_cleanup:
    "Cleanup_calls (snd (snd (Reconcile example_marker example_reconciler
        (example_state None [] False True) ''storage''))) = []"
    by blast
  from live count no_cleanup ex_live_adapter_down ex_Get(1) [of None "[]" False True]
  show ?thesis by blast
qed

text \<open>
  The claim C1 as stated fails on the example controller: for a live resource without
  finalizers and without a bucket, one invocation updates both phases, the second one
  after the first non-converged phase has been applied with success.
\<close>

theorem Reconcile_forward_walk_counterexample:
  "Get example_reconciler (example_state None [] False False) ''storage''
     = Inr (example_resource None [])
   \<and> IsZero (DeletionTimestamp (example_resource None []))
   \<and> snd (snd (Reconcile example_marker example_reconciler
        (example_state None [] False False) ''storage''))
       = [Call_IsUpdated 0, Call_Update 0, Call_IsUpdated 1, Call_Update 1]
   \<and> Update_calls (snd (snd (Reconcile example_marker example_reconciler
        (example_state None [] False False) ''storage''))) = [0, 1]
   \<and> \<not> length (Update_calls (snd (snd (Reconcile example_marker example_reconciler
        (example_state None [] False False) ''storage'')))) \<le> 1"
  by (simp add: ex_live ex_Get ex_resource ex_marker)




end
